theory Spec2Isabelle
  imports Main "HOL-Library.Word"
begin

section \<open>JavaScript values\<close>

text \<open>
  A JavaScript string is its sequence of UTF-16 code units. The source's ASCII literals
  are written with \<open>ascii\<close>; its Chinese literals are written as code-unit lists
  with a gloss beside them.
\<close>

type_synonym jsstring = "nat list"

definition ascii :: "string \<Rightarrow> jsstring" where
  "ascii s = map of_char s"

text \<open>\<^verbatim>\<open>s.startsWith(p)\<close> and \<^verbatim>\<open>s.includes(k)\<close>.\<close>

fun startsWith :: "jsstring \<Rightarrow> jsstring \<Rightarrow> bool" where
  "startsWith s [] = True"
| "startsWith [] (p # ps) = False"
| "startsWith (c # cs) (p # ps) = (c = p \<and> startsWith cs ps)"

fun includesStr :: "jsstring \<Rightarrow> jsstring \<Rightarrow> bool" where
  "includesStr [] k = (k = [])"
| "includesStr (c # cs) k = (startsWith (c # cs) k \<or> includesStr cs k)"

text \<open>
  \<^verbatim>\<open>s.trim()\<close> removes the ECMAScript white space and line terminator code units
  from both ends.
\<close>

definition isWhiteSpace :: "nat \<Rightarrow> bool" where
  "isWhiteSpace c =
     (c = 9 \<or> c = 10 \<or> c = 11 \<or> c = 12 \<or> c = 13 \<or> c = 32 \<or> c = 160 \<or> c = 5760 \<or>
      (8192 \<le> c \<and> c \<le> 8202) \<or> c = 8232 \<or> c = 8233 \<or> c = 8239 \<or> c = 8287 \<or>
      c = 12288 \<or> c = 65279)"

definition trim :: "jsstring \<Rightarrow> jsstring" where
  "trim s = rev (dropWhile isWhiteSpace (rev (dropWhile isWhiteSpace s)))"

text \<open>\<^verbatim>\<open>s.split('\n')\<close>: never empty, \<^verbatim>\<open>''.split('\n')\<close> is \<^verbatim>\<open>['']\<close>.\<close>

fun splitNL :: "jsstring \<Rightarrow> jsstring list" where
  "splitNL [] = [[]]"
| "splitNL (c # cs) =
     (if c = 10 then [] # splitNL cs
      else (case splitNL cs of [] \<Rightarrow> [[c]] | l # ls \<Rightarrow> (c # l) # ls))"

text \<open>
  The values \<^verbatim>\<open>JSON.parse\<close> and \<^verbatim>\<open>response.json()\<close> produce. The code only tests a
  number for being zero (its truthiness; \<^verbatim>\<open>NaN\<close> is no JSON value), so a number is
  kept as an integer tag that is \<open>0\<close> exactly for the zeros. An object is the list of
  its own properties; \<^verbatim>\<open>undefined\<close> is \<open>None\<close> of \<open>json option\<close>.
\<close>

datatype json =
    JNull
  | JBool bool
  | JNum int
  | JStr jsstring
  | JArr "json list"
  | JObj "(jsstring \<times> json) list"

fun truthy :: "json \<Rightarrow> bool" where
  "truthy JNull = False"
| "truthy (JBool b) = b"
| "truthy (JNum n) = (n \<noteq> 0)"
| "truthy (JStr s) = (s \<noteq> [])"
| "truthy (JArr xs) = True"
| "truthy (JObj kvs) = True"

fun truthyU :: "json option \<Rightarrow> bool" where
  "truthyU None = False"
| "truthyU (Some v) = truthy v"

text \<open>
  \<^verbatim>\<open>x.name\<close> for a value \<open>x\<close> that is neither \<^verbatim>\<open>null\<close> nor \<^verbatim>\<open>undefined\<close>, and for
  the property names the source reads (\<^verbatim>\<open>choices\<close>, \<^verbatim>\<open>delta\<close>, \<^verbatim>\<open>content\<close>, \<^verbatim>\<open>type\<close>,
  \<^verbatim>\<open>text\<close>, \<^verbatim>\<open>list\<close>, \<^verbatim>\<open>items\<close>, \<^verbatim>\<open>title\<close>, ...): none of them is defined on the
  prototypes of strings, numbers, booleans, arrays or objects, so only an object's own
  property answers. The one inherited name the source reads is \<^verbatim>\<open>link\<close>, a method of
  every string; \<open>formatItem\<close> below, its only reader, treats it apart.
\<close>

fun member :: "json \<Rightarrow> jsstring \<Rightarrow> json option" where
  "member (JObj kvs) k = map_of kvs k"
| "member v k = None"

text \<open>\<^verbatim>\<open>x?.name\<close>: \<^verbatim>\<open>undefined\<close> when \<open>x\<close> is \<^verbatim>\<open>null\<close> or \<^verbatim>\<open>undefined\<close>.\<close>

fun optMember :: "json option \<Rightarrow> jsstring \<Rightarrow> json option" where
  "optMember None k = None"
| "optMember (Some JNull) k = None"
| "optMember (Some v) k = member v k"

text \<open>
  \<^verbatim>\<open>x?.[0]\<close>: the first element of an array, the first code unit of a string, the own
  property \<^verbatim>\<open>"0"\<close> of an object.
\<close>

fun optIndex0 :: "json option \<Rightarrow> json option" where
  "optIndex0 None = None"
| "optIndex0 (Some (JArr xs)) = (case xs of [] \<Rightarrow> None | x # _ \<Rightarrow> Some x)"
| "optIndex0 (Some (JStr s)) = (case s of [] \<Rightarrow> None | c # _ \<Rightarrow> Some (JStr [c]))"
| "optIndex0 (Some (JObj kvs)) = map_of kvs (ascii ''0'')"
| "optIndex0 (Some v) = None"

text \<open>\<^verbatim>\<open>v || ''\<close>.\<close>

definition orEmpty :: "json option \<Rightarrow> json" where
  "orEmpty v = (case v of None \<Rightarrow> JStr [] | Some x \<Rightarrow> if truthy x then x else JStr [])"

text \<open>
  The built-in functions of the platform that the code calls and whose algorithms are
  not part of the repository. They are parameters of the model: every theorem holds for
  whatever they compute.
  \<^item> \<open>jsonParse\<close>: \<^verbatim>\<open>JSON.parse\<close>; \<open>None\<close> when it throws.
  \<^item> \<open>jsonStringify\<close>: \<^verbatim>\<open>JSON.stringify(v, null, 2)\<close>.
  \<^item> \<open>toStr\<close>: the string a template literal puts for a value (\<open>None\<close> is
    \<^verbatim>\<open>undefined\<close>), where the conversion does not throw (\<open>printable\<close> below).
  \<^item> \<open>nativeFunctionText\<close>: the string a template literal puts for the built-in
    method of that name (the text of a native function).
  \<^item> \<open>toLowerCase\<close>: \<^verbatim>\<open>String.prototype.toLowerCase\<close>.
\<close>

record builtins =
  jsonParse :: "jsstring \<Rightarrow> json option"
  jsonStringify :: "json \<Rightarrow> jsstring"
  toStr :: "json option \<Rightarrow> jsstring"
  nativeFunctionText :: "jsstring \<Rightarrow> jsstring"
  toLowerCase :: "jsstring \<Rightarrow> jsstring"

text \<open>
  Conversion to a string, as a template literal, \<^verbatim>\<open>Array.prototype.join\<close> and
  \<^verbatim>\<open>encodeURIComponent\<close> do it, throws a \<^verbatim>\<open>TypeError\<close> for an object whose own
  property \<^verbatim>\<open>toString\<close> hides the inherited method (a parsed value is never a
  function), also when the object is an element of an array, nested or not.
\<close>

fun printable :: "json \<Rightarrow> bool" where
  "printable (JArr xs) = list_all printable xs"
| "printable (JObj kvs) = (map_of kvs (ascii ''toString'') = None)"
| "printable v = True"

definition printableU :: "json option \<Rightarrow> bool" where
  "printableU v = (case v of None \<Rightarrow> True | Some x \<Rightarrow> printable x)"

text \<open>
  \<^verbatim>\<open>encodeURIComponent(v)\<close> returns unless the conversion of \<open>v\<close> to a string throws
  or the string has a lone surrogate (\<^verbatim>\<open>URIError\<close>). The string of an array is its
  elements' strings joined by commas, so it is well formed when each of them is.
\<close>

definition isHighSurrogate :: "nat \<Rightarrow> bool" where
  "isHighSurrogate c = (0xD800 \<le> c \<and> c \<le> 0xDBFF)"

definition isLowSurrogate :: "nat \<Rightarrow> bool" where
  "isLowSurrogate c = (0xDC00 \<le> c \<and> c \<le> 0xDFFF)"

fun wellFormed :: "jsstring \<Rightarrow> bool" where
  "wellFormed [] = True"
| "wellFormed [c] = (\<not> isHighSurrogate c \<and> \<not> isLowSurrogate c)"
| "wellFormed (c # d # ds) =
     (if isHighSurrogate c then isLowSurrogate d \<and> wellFormed ds
      else \<not> isLowSurrogate c \<and> wellFormed (d # ds))"

fun encodable :: "json \<Rightarrow> bool" where
  "encodable (JStr cs) = wellFormed cs"
| "encodable (JArr xs) = list_all encodable xs"
| "encodable (JObj kvs) = (map_of kvs (ascii ''toString'') = None)"
| "encodable v = True"

section \<open>The stream transformer (route.ts, transformToSSE)\<close>

subsection \<open>TextDecoder in streaming mode\<close>

text \<open>
  \<^verbatim>\<open>new TextDecoder()\<close> is the UTF-8 decoder of the Encoding standard. With
  \<^verbatim>\<open>{stream: true}\<close> it keeps its state between calls and is never flushed: the bytes of
  an unfinished sequence wait for the next chunk.
\<close>

record utf8_decoder =
  codePoint :: nat
  bytesNeeded :: nat
  bytesSeen :: nat
  lowerBoundary :: "8 word"
  upperBoundary :: "8 word"

definition utf8_reset :: utf8_decoder where
  "utf8_reset = \<lparr>codePoint = 0, bytesNeeded = 0, bytesSeen = 0,
                  lowerBoundary = 0x80, upperBoundary = 0xBF\<rparr>"

text \<open>The handler when no sequence is open. It returns the code points it emits
  (\<open>0xFFFD\<close> for an error) and the next state.\<close>

definition utf8_lead :: "8 word \<Rightarrow> nat list \<times> utf8_decoder" where
  "utf8_lead b =
     (if b \<le> 0x7F then ([unat b], utf8_reset)
      else if 0xC2 \<le> b \<and> b \<le> 0xDF then
        ([], utf8_reset\<lparr>bytesNeeded := 1, codePoint := unat b mod 32\<rparr>)
      else if 0xE0 \<le> b \<and> b \<le> 0xEF then
        ([], utf8_reset\<lparr>bytesNeeded := 2, codePoint := unat b mod 16,
                         lowerBoundary := (if b = 0xE0 then 0xA0 else 0x80),
                         upperBoundary := (if b = 0xED then 0x9F else 0xBF)\<rparr>)
      else if 0xF0 \<le> b \<and> b \<le> 0xF4 then
        ([], utf8_reset\<lparr>bytesNeeded := 3, codePoint := unat b mod 8,
                         lowerBoundary := (if b = 0xF0 then 0x90 else 0x80),
                         upperBoundary := (if b = 0xF4 then 0x8F else 0xBF)\<rparr>)
      else ([0xFFFD], utf8_reset))"

definition utf8_handler :: "utf8_decoder \<Rightarrow> 8 word \<Rightarrow> nat list \<times> utf8_decoder" where
  "utf8_handler d b =
     (if bytesNeeded d = 0 then utf8_lead b
      else if \<not> (lowerBoundary d \<le> b \<and> b \<le> upperBoundary d) then
        (0xFFFD # fst (utf8_lead b), snd (utf8_lead b))
      else
        (let cp = codePoint d * 64 + unat b mod 64 in
         if bytesSeen d + 1 \<noteq> bytesNeeded d then
           ([], d\<lparr>codePoint := cp, bytesSeen := bytesSeen d + 1,
                   lowerBoundary := 0x80, upperBoundary := 0xBF\<rparr>)
         else ([cp], utf8_reset)))"

text \<open>The decoder run over the bytes of one chunk, appending to its output.\<close>

fun utf8_run :: "nat list \<Rightarrow> utf8_decoder \<Rightarrow> 8 word list \<Rightarrow> nat list \<times> utf8_decoder" where
  "utf8_run out d [] = (out, d)"
| "utf8_run out d (b # bs) =
     utf8_run (out @ fst (utf8_handler d b)) (snd (utf8_handler d b)) bs"

text \<open>A code point as UTF-16 code units.\<close>

definition utf16 :: "nat \<Rightarrow> jsstring" where
  "utf16 cp =
     (if cp < 0x10000 then [cp]
      else [0xD800 + (cp - 0x10000) div 1024, 0xDC00 + (cp - 0x10000) mod 1024])"

text \<open>The decoder object: the UTF-8 state and the \<^emph>\<open>BOM seen\<close> flag. The first code
  point of the whole stream is dropped when it is \<open>U+FEFF\<close>.\<close>

record text_decoder =
  utf8 :: utf8_decoder
  bomSeen :: bool

definition newTextDecoder :: text_decoder where
  "newTextDecoder = \<lparr>utf8 = utf8_reset, bomSeen = False\<rparr>"

definition stripBOM :: "bool \<Rightarrow> nat list \<Rightarrow> nat list \<times> bool" where
  "stripBOM seen cps =
     (if seen then (cps, True)
      else (case cps of [] \<Rightarrow> ([], False)
            | c # cs \<Rightarrow> (if c = 0xFEFF then cs else c # cs, True)))"

definition decode :: "text_decoder \<Rightarrow> 8 word list \<Rightarrow> jsstring \<times> text_decoder" where
  "decode td bytes =
     (let (cps, d') = utf8_run [] (utf8 td) bytes;
          (cps', seen') = stripBOM (bomSeen td) cps
      in (concat (map utf16 cps'), \<lparr>utf8 = d', bomSeen = seen'\<rparr>))"

subsection \<open>Lines to events\<close>

datatype provider = OpenAI | Claude | Custom

text \<open>
  What the transformer enqueues: \<open>TextEvent t\<close> is the chunk
  \<^verbatim>\<open>data: ${JSON.stringify({ text })}\n\n\<close>, \<open>DoneEvent\<close> is \<^verbatim>\<open>data: [DONE]\n\n\<close>.
\<close>

datatype event = TextEvent json | DoneEvent

text \<open>
  The body of the inner \<^verbatim>\<open>try\<close>: \<open>None\<close> is a thrown \<^verbatim>\<open>TypeError\<close> (a property
  read on \<^verbatim>\<open>null\<close>), which the \<^verbatim>\<open>catch\<close> logs.
\<close>

definition extractText :: "provider \<Rightarrow> json \<Rightarrow> json option" where
  "extractText p j =
     (if j = JNull then None
      else if p = Claude then
        (if member j (ascii ''type'') = Some (JStr (ascii ''content_block_delta''))
         then Some (orEmpty (optMember (member j (ascii ''delta'')) (ascii ''text'')))
         else Some (JStr []))
      else Some (orEmpty (optMember (optMember (optIndex0 (member j (ascii ''choices'')))
                                      (ascii ''delta'')) (ascii ''content''))))"

definition processLine :: "builtins \<Rightarrow> provider \<Rightarrow> jsstring \<Rightarrow> event list" where
  "processLine B p line =
     (if startsWith line (ascii ''data: '') then
        (let data = trim (drop 6 line) in
         if data = [] then []
         else if data = ascii ''[DONE]'' then [DoneEvent]
         else (case jsonParse B data of
                 None \<Rightarrow> []
               | Some j \<Rightarrow>
                   (case extractText p j of
                      None \<Rightarrow> []
                    | Some t \<Rightarrow> if truthy t then [TextEvent t] else [])))
      else [])"

definition chunkLines :: "jsstring \<Rightarrow> jsstring list" where
  "chunkLines chunk = filter (\<lambda>line. trim line \<noteq> []) (splitNL chunk)"

definition processChunk :: "builtins \<Rightarrow> provider \<Rightarrow> jsstring \<Rightarrow> event list" where
  "processChunk B p chunk = concat (map (processLine B p) (chunkLines chunk))"

text \<open>
  The upstream is the chunks \<^verbatim>\<open>reader.read()\<close> delivers and how reading ends: with
  \<^verbatim>\<open>done\<close>, or with a rejected read. The output is the events enqueued and the state
  the controller is left in.
\<close>

datatype upstream_end = UpstreamDone | ReadFailed

datatype output_end = OutClosed | OutErrored

fun readLoop ::
  "builtins \<Rightarrow> provider \<Rightarrow> text_decoder \<Rightarrow> event list \<Rightarrow> 8 word list list \<Rightarrow> event list" where
  "readLoop B p td enqueued [] = enqueued"
| "readLoop B p td enqueued (value # rest) =
     readLoop B p (snd (decode td value))
       (enqueued @ processChunk B p (fst (decode td value))) rest"

definition transformToSSE ::
  "builtins \<Rightarrow> provider \<Rightarrow> 8 word list list \<times> upstream_end \<Rightarrow> event list \<times> output_end" where
  "transformToSSE B p upstream =
     (readLoop B p newTextDecoder [] (fst upstream),
      (case snd upstream of UpstreamDone \<Rightarrow> OutClosed | ReadFailed \<Rightarrow> OutErrored))"

section \<open>The intent classifier (ai-orchestrator.ts, analyzeIntent)\<close>

datatype media = Movie | TV

record VideoContext =
  title :: "jsstring option"
  year :: "jsstring option"
  douban_id :: "int option"
  tmdb_id :: "int option"
  ctx_type :: "media option"
  currentEpisode :: "int option"

datatype intent_type = Recommendation | Query | Detail | General

datatype media_type = MediaMovie | MediaTv | MediaVariety | MediaAnime

text \<open>
  The three \<open>need\<close> fields are only ever read as conditions, so they are kept as the
  truth value JavaScript gives them. \<open>genre\<close> is declared and never assigned.
\<close>

record IntentAnalysisResult =
  intent_type :: intent_type
  mediaType :: "media_type option"
  genre :: "jsstring option"
  needWebSearch :: bool
  needDouban :: bool
  needTMDB :: bool
  intent_keywords :: "json list"
  entities :: "(jsstring \<times> jsstring) list"

text \<open>The keyword tables, code unit by code unit (the gloss gives the meaning).\<close>

definition timeKeywords :: "jsstring list" where
  "timeKeywords =
     [[26368, 26032],                  \<comment> \<open>zuixin: latest\<close>
      [20170, 24180],                  \<comment> \<open>jinnian: this year\<close>
      ascii ''2024'',
      ascii ''2025'',
      [21363, 23558],                  \<comment> \<open>jijiang: upcoming\<close>
      [19978, 26144],                  \<comment> \<open>shangying: released\<close>
      [26032, 20986],                  \<comment> \<open>xinchu: newly out\<close>
      [20160, 20040, 26102, 20505],    \<comment> \<open>shenme shihou: when\<close>
      [20309, 26102],                  \<comment> \<open>heshi: when\<close>
      [20960, 26102],                  \<comment> \<open>jishi: when\<close>
      [25773, 20986],                  \<comment> \<open>bochu: airs\<close>
      [26356, 26032],                  \<comment> \<open>gengxin: update\<close>
      [19979, 19968, 23395],           \<comment> \<open>xia yi ji: next season\<close>
      [31532, 20108, 23395],           \<comment> \<open>di er ji: season two\<close>
      [31532, 19977, 23395],           \<comment> \<open>di san ji: season three\<close>
      [32493, 38598],                  \<comment> \<open>xuji: sequel\<close>
      [19979, 23395],                  \<comment> \<open>xia ji: next season\<close>
      [19979, 37096]]                  \<comment> \<open>xia bu: next part\<close>"

definition recommendKeywords :: "jsstring list" where
  "recommendKeywords =
     [[25512, 33616],                  \<comment> \<open>tuijian: recommend\<close>
      [26377, 20160, 20040],           \<comment> \<open>you shenme: what is there\<close>
      [22909, 30475],                  \<comment> \<open>haokan: good to watch\<close>
      [20540, 24471],                  \<comment> \<open>zhide: worth\<close>
      [20171, 32461]]                  \<comment> \<open>jieshao: introduce\<close>"

definition personKeywords :: "jsstring list" where
  "personKeywords =
     [[28436, 21592],                  \<comment> \<open>yanyuan: actor\<close>
      [23548, 28436],                  \<comment> \<open>daoyan: director\<close>
      [20027, 28436],                  \<comment> \<open>zhuyan: starring\<close>
      [20986, 28436],                  \<comment> \<open>chuyan: appears in\<close>
      [20316, 21697]]                  \<comment> \<open>zuopin: works\<close>"

definition plotKeywords :: "jsstring list" where
  "plotKeywords =
     [[35762, 20160, 20040],           \<comment> \<open>jiang shenme: what is it about\<close>
      [21095, 24773],                  \<comment> \<open>juqing: plot\<close>
      [25925, 20107],                  \<comment> \<open>gushi: story\<close>
      [20869, 23481],                  \<comment> \<open>neirong: content\<close>
      [35762, 30340, 26159]]           \<comment> \<open>jiang de shi: is about\<close>"

definition kw_movie :: jsstring where "kw_movie = [30005, 24433]"            \<comment> \<open>dianying\<close>
definition kw_tvSeries :: jsstring where "kw_tvSeries = [30005, 35270, 21095]"  \<comment> \<open>dianshiju\<close>
definition kw_series :: jsstring where "kw_series = [21095, 38598]"          \<comment> \<open>juji\<close>
definition kw_variety :: jsstring where "kw_variety = [32508, 33402]"        \<comment> \<open>zongyi\<close>
definition kw_anime :: jsstring where "kw_anime = [21160, 28459]"            \<comment> \<open>dongman\<close>
definition kw_animation :: jsstring where "kw_animation = [21160, 30011]"    \<comment> \<open>donghua\<close>
definition kw_thisOne :: jsstring where "kw_thisOne = [36825, 37096]"        \<comment> \<open>zhe bu: this (show)\<close>
definition kw_news :: jsstring where "kw_news = [26032, 38395]"              \<comment> \<open>xinwen: news\<close>

text \<open>\<^verbatim>\<open>keywords.some((k) => message.includes(k))\<close>.\<close>

definition someIncluded :: "jsstring list \<Rightarrow> jsstring \<Rightarrow> bool" where
  "someIncluded ks message = list_ex (\<lambda>k. includesStr message k) ks"

text \<open>Truthiness of an optional string and of an optional number.\<close>

definition strTruthy :: "jsstring option \<Rightarrow> bool" where
  "strTruthy s = (case s of None \<Rightarrow> False | Some v \<Rightarrow> v \<noteq> [])"

definition numTruthy :: "int option \<Rightarrow> bool" where
  "numTruthy n = (case n of None \<Rightarrow> False | Some v \<Rightarrow> v \<noteq> 0)"

text \<open>\<^verbatim>\<open>context?.f\<close> on the optional context.\<close>

definition ctxTitle :: "VideoContext option \<Rightarrow> jsstring option" where
  "ctxTitle context = (case context of None \<Rightarrow> None | Some c \<Rightarrow> title c)"

definition ctxType :: "VideoContext option \<Rightarrow> media option" where
  "ctxType context = (case context of None \<Rightarrow> None | Some c \<Rightarrow> ctx_type c)"

definition ctxDoubanId :: "VideoContext option \<Rightarrow> int option" where
  "ctxDoubanId context = (case context of None \<Rightarrow> None | Some c \<Rightarrow> douban_id c)"

definition ctxTmdbId :: "VideoContext option \<Rightarrow> int option" where
  "ctxTmdbId context = (case context of None \<Rightarrow> None | Some c \<Rightarrow> tmdb_id c)"

definition mediaOfContext :: "media \<Rightarrow> media_type" where
  "mediaOfContext m = (case m of Movie \<Rightarrow> MediaMovie | TV \<Rightarrow> MediaTv)"

text \<open>
  \<^verbatim>\<open>extractEntities\<close>: the global regular expression
  \<^verbatim>\<open>/([\u4e00-\u9fa5]{2,4})(P)/g\<close> (\<open>P\<close> is one of the four particles, the code
  units 30340, 26159, 28436, 23548), matched greedily from left to right.
\<close>

definition isHan :: "nat \<Rightarrow> bool" where
  "isHan c = (19968 \<le> c \<and> c \<le> 40869)"

definition isParticle :: "nat \<Rightarrow> bool" where
  "isParticle c = (c = 30340 \<or> c = 26159 \<or> c = 28436 \<or> c = 23548)"

definition matchesWith :: "nat \<Rightarrow> jsstring \<Rightarrow> bool" where
  "matchesWith m s = (m < length s \<and> list_all isHan (take m s) \<and> isParticle (s ! m))"

definition personMatch :: "jsstring \<Rightarrow> nat option" where
  "personMatch s =
     (if matchesWith 4 s then Some 4
      else if matchesWith 3 s then Some 3
      else if matchesWith 2 s then Some 2
      else None)"

function extractEntities :: "jsstring \<Rightarrow> (jsstring \<times> jsstring) list" where
  "extractEntities s =
     (if s = [] then []
      else (case personMatch s of
              None \<Rightarrow> extractEntities (tl s)
            | Some m \<Rightarrow> (ascii ''person'', take m s) # extractEntities (drop (Suc m) s)))"
  by pat_completeness auto
termination
  by (relation "measure length") auto

definition analyzeIntent :: "builtins \<Rightarrow> jsstring \<Rightarrow> VideoContext option \<Rightarrow> IntentAnalysisResult" where
  "analyzeIntent B message context =
     (let lowerMessage = toLowerCase B message;
          hasTimeKeyword = someIncluded timeKeywords message;
          isRecommendation = someIncluded recommendKeywords message;
          isPerson = someIncluded personKeywords message;
          isPlotQuery = someIncluded plotKeywords message;
          mediaType =
            (if includesStr message kw_movie then Some MediaMovie
             else if includesStr message kw_tvSeries \<or> includesStr message kw_series
               then Some MediaTv
             else if includesStr message kw_variety then Some MediaVariety
             else if includesStr message kw_anime \<or> includesStr message kw_animation
               then Some MediaAnime
             else map_option mediaOfContext (ctxType context));
          type =
            (if isRecommendation then Recommendation
             else if strTruthy (ctxTitle context) \<and>
                     (isPlotQuery \<or> includesStr lowerMessage kw_thisOne) then Detail
             else if isPerson \<or> hasTimeKeyword then Query
             else General);
          needWebSearch =
            (hasTimeKeyword \<or> isPerson \<or> includesStr message kw_news \<or>
             (isRecommendation \<and> hasTimeKeyword) \<or> type = Query);
          needDouban =
            (isRecommendation \<or> type = Detail \<or>
             (case ctxDoubanId context of None \<Rightarrow> False | Some n \<Rightarrow> n > 0));
          needTMDB =
            (type = Detail \<or>
             (case ctxTmdbId context of None \<Rightarrow> False | Some n \<Rightarrow> n > 0))
      in \<lparr>intent_type = type, mediaType = mediaType, genre = None,
          needWebSearch = needWebSearch, needDouban = needDouban, needTMDB = needTMDB,
          intent_keywords = map JStr (filter (\<lambda>k. includesStr message k) timeKeywords),
          entities = extractEntities message\<rparr>)"

section \<open>The orchestrator (ai-orchestrator.ts)\<close>

subsection \<open>Configuration, requests and the outside world\<close>

datatype search_provider = Tavily | Serper | SerpApi

record OrchestratorConfig =
  enableWebSearch :: bool
  webSearchProvider :: "search_provider option"
  tavilyApiKey :: "jsstring option"
  serperApiKey :: "jsstring option"
  serpApiKey :: "jsstring option"
  tmdbApiKey :: "jsstring option"
  tmdbProxy :: "jsstring option"
  enableDecisionModel :: "bool option"
  decisionProvider :: "provider option"
  decisionApiKey :: "jsstring option"
  decisionBaseURL :: "jsstring option"
  decisionModel :: "jsstring option"

text \<open>The \<^verbatim>\<open>availableDataSources\<close> argument of \<^verbatim>\<open>callDecisionModel\<close>.\<close>

record availability =
  avail_webSearch :: bool
  avail_douban :: bool
  avail_tmdb :: bool

text \<open>
  Every call that leaves the process, with what the code puts into it:
  \<^item> the decision model's completion call (provider, key, base URL, model, the user
    message, the context and the availability map that shape the two prompts);
  \<^item> the web search call (provider, query, key);
  \<^item> the three Douban calls \<^verbatim>\<open>fetchDoubanData\<close> can make through \<^verbatim>\<open>fetchDoubanAPI\<close>:
    detail by id, the hot list (kind, category, type), search (kind, query);
  \<^item> the TMDB detail call (type, id, key), which carries the 15 second
    \<^verbatim>\<open>AbortSignal.timeout\<close>;
  \<^item> the streaming chat completion call of the endpoint (key, base URL, model,
    messages).
  Constant parts of a call (URLs, headers, result limits, temperature and token
  budgets) are not recorded: no statement reads them.
\<close>

datatype chat_role = RoleUser | RoleAssistant

type_synonym ChatMessage = "chat_role \<times> jsstring"

datatype request =
    DecisionRequest provider jsstring "jsstring option" jsstring jsstring
      "VideoContext option" availability
  | WebSearchRequest search_provider json jsstring
  | DoubanDetailRequest int
  | DoubanHotRequest jsstring jsstring jsstring
  | DoubanSearchRequest jsstring json
  | TMDBRequest media int jsstring
  | ChatCompletionRequest jsstring jsstring jsstring "ChatMessage list"

text \<open>
  What the outside world answers. \<open>Failed\<close> is every way a call ends without a usable
  body: the fetch rejects (\<open>NetworkError\<close>, or \<open>TimedOut\<close> when the abort signal fires),
  the status is not ok, or the body does not parse. \<open>Replied j\<close> is the value
  \<^verbatim>\<open>response.json()\<close> (or \<^verbatim>\<open>fetchDoubanAPI\<close>) resolves to; for the decision model it
  is the value parsed out of the completion's text. The world is a parameter: theorems
  quantify over it.
\<close>

datatype failure = NetworkError | TimedOut | StatusNotOk | MalformedBody

datatype reply = Failed failure | Replied json

type_synonym world = "request \<Rightarrow> reply"

text \<open>
  Each adapter wraps its call in \<^verbatim>\<open>try\<close>/\<^verbatim>\<open>catch\<close> and returns \<^verbatim>\<open>null\<close> on any
  failure. An adapter's result is the requests it issued and the value it returns.
  \<^verbatim>\<open>callDecisionModel\<close> builds its two prompts from the message, the context and the
  availability map, makes one completion call, strips code fences from the reply and
  parses it; the model keeps the call and the parsed value, \<^verbatim>\<open>null\<close> for every
  failure on the way.
\<close>

definition orNull :: "reply \<Rightarrow> json" where
  "orNull r = (case r of Failed f \<Rightarrow> JNull | Replied j \<Rightarrow> j)"

definition call :: "world \<Rightarrow> request \<Rightarrow> request list \<times> json" where
  "call W r = ([r], orNull (W r))"

definition callDecisionModel ::
  "world \<Rightarrow> jsstring \<Rightarrow> VideoContext option \<Rightarrow> provider \<Rightarrow> jsstring \<Rightarrow> jsstring option \<Rightarrow>
   jsstring \<Rightarrow> availability \<Rightarrow> request list \<times> json" where
  "callDecisionModel W userMessage context prov apiKey baseURL model available =
     call W (DecisionRequest prov apiKey baseURL model userMessage context available)"

text \<open>
  \<^verbatim>\<open>fetchWebSearch\<close>. Tavily and Serper carry the query in a JSON body; SerpAPI carries
  it in the URL, and \<^verbatim>\<open>encodeURIComponent(query)\<close>, inside the \<^verbatim>\<open>try\<close>, can throw
  before the fetch.
\<close>

definition fetchWebSearch ::
  "world \<Rightarrow> json \<Rightarrow> search_provider \<Rightarrow> jsstring \<Rightarrow> request list \<times> json" where
  "fetchWebSearch W query prov apiKey =
     (if prov = SerpApi \<and> \<not> encodable query then ([], JNull)
      else call W (WebSearchRequest prov query apiKey))"

record DoubanParams =
  p_id :: "int option"
  p_query :: "json option"
  p_kind :: "jsstring option"
  p_category :: "jsstring option"
  p_type :: "jsstring option"

definition noParams :: DoubanParams where
  "noParams = \<lparr>p_id = None, p_query = None, p_kind = None, p_category = None, p_type = None\<rparr>"

text \<open>\<^verbatim>\<open>s || d\<close> on an optional string.\<close>

definition strOr :: "jsstring option \<Rightarrow> jsstring \<Rightarrow> jsstring" where
  "strOr s d = (case s of None \<Rightarrow> d | Some v \<Rightarrow> if v = [] then d else v)"

text \<open>
  \<^verbatim>\<open>fetchDoubanData\<close>: detail by id, else the hot list, else search, else nothing.
  The hot list URL encodes the category and the type, the search URL encodes the query;
  where \<^verbatim>\<open>encodeURIComponent\<close> throws, the \<^verbatim>\<open>catch\<close> returns \<^verbatim>\<open>null\<close> and no call
  is made.
\<close>

definition fetchDoubanSearch :: "world \<Rightarrow> DoubanParams \<Rightarrow> request list \<times> json" where
  "fetchDoubanSearch W params =
     (case p_query params of
        None \<Rightarrow> ([], JNull)
      | Some q \<Rightarrow>
          if truthy q then
            (if encodable q
             then call W (DoubanSearchRequest (strOr (p_kind params) (ascii ''movie'')) q)
             else ([], JNull))
          else ([], JNull))"

definition fetchDoubanHot :: "world \<Rightarrow> DoubanParams \<Rightarrow> request list \<times> json" where
  "fetchDoubanHot W params =
     (case (p_kind params, p_category params, p_type params) of
        (Some k, Some c, Some t) \<Rightarrow>
          if k \<noteq> [] \<and> c \<noteq> [] \<and> t \<noteq> [] then
            (if wellFormed c \<and> wellFormed t then call W (DoubanHotRequest k c t)
             else ([], JNull))
          else fetchDoubanSearch W params
      | _ \<Rightarrow> fetchDoubanSearch W params)"

definition fetchDoubanData :: "world \<Rightarrow> DoubanParams \<Rightarrow> request list \<times> json" where
  "fetchDoubanData W params =
     (case p_id params of
        None \<Rightarrow> fetchDoubanHot W params
      | Some n \<Rightarrow>
          if n \<noteq> 0 then call W (DoubanDetailRequest n) else fetchDoubanHot W params)"

definition fetchTMDBData ::
  "world \<Rightarrow> int option \<Rightarrow> media option \<Rightarrow> jsstring option \<Rightarrow> jsstring option \<Rightarrow>
   request list \<times> json" where
  "fetchTMDBData W ident kind tmdbKey proxy =
     (case tmdbKey of
        None \<Rightarrow> ([], JNull)
      | Some key \<Rightarrow>
          if key = [] then ([], JNull)
          else (case (ident, kind) of
                  (Some n, Some t) \<Rightarrow>
                    if n \<noteq> 0 then call W (TMDBRequest t n key) else ([], JNull)
                | _ \<Rightarrow> ([], JNull)))"

subsection \<open>Step 1: the decision model or the intent classifier\<close>

definition hasWebSearchProvider :: "OrchestratorConfig \<Rightarrow> bool" where
  "hasWebSearchProvider c =
     (enableWebSearch c \<and>
      (case webSearchProvider c of
         None \<Rightarrow> False
       | Some Tavily \<Rightarrow> strTruthy (tavilyApiKey c)
       | Some Serper \<Rightarrow> strTruthy (serperApiKey c)
       | Some SerpApi \<Rightarrow> strTruthy (serpApiKey c)))"

definition hasTMDB :: "OrchestratorConfig \<Rightarrow> bool" where
  "hasTMDB c = strTruthy (tmdbApiKey c)"

definition availableDataSources :: "OrchestratorConfig \<Rightarrow> availability" where
  "availableDataSources c =
     \<lparr>avail_webSearch = hasWebSearchProvider c, avail_douban = True, avail_tmdb = hasTMDB c\<rparr>"

text \<open>The decision (\<^verbatim>\<open>null\<close> when the model is not used or failed) and the call made.\<close>

definition decide ::
  "world \<Rightarrow> jsstring \<Rightarrow> VideoContext option \<Rightarrow> OrchestratorConfig option \<Rightarrow>
   request list \<times> json" where
  "decide W userMessage context config =
     (case config of
        None \<Rightarrow> ([], JNull)
      | Some c \<Rightarrow>
         (case (enableDecisionModel c, decisionProvider c, decisionApiKey c, decisionModel c) of
            (Some True, Some prov, Some key, Some model) \<Rightarrow>
              if key \<noteq> [] \<and> model \<noteq> []
              then callDecisionModel W userMessage context prov key (decisionBaseURL c) model
                     (availableDataSources c)
              else ([], JNull)
          | _ \<Rightarrow> ([], JNull)))"

text \<open>
  The intent the rest of the pipeline reads, with the two optimized queries the code
  stores on it (\<^verbatim>\<open>optimizedWebSearchQuery\<close>, \<^verbatim>\<open>optimizedDoubanQuery\<close>).
\<close>

record ResolvedIntent =
  intent :: IntentAnalysisResult
  optimizedWebSearchQuery :: "json option"
  optimizedDoubanQuery :: "json option"

definition resolveIntent ::
  "builtins \<Rightarrow> jsstring \<Rightarrow> VideoContext option \<Rightarrow> json \<Rightarrow> ResolvedIntent" where
  "resolveIntent B userMessage context decision =
     (if \<not> truthy decision then
        \<lparr>intent = analyzeIntent B userMessage context,
         optimizedWebSearchQuery = None, optimizedDoubanQuery = None\<rparr>
      else
        (let dWeb = truthyU (member decision (ascii ''needWebSearch''));
             dDouban = truthyU (member decision (ascii ''needDouban''));
             dTMDB = truthyU (member decision (ascii ''needTMDB''));
             wq = member decision (ascii ''webSearchQuery'')
         in \<lparr>intent =
               \<lparr>intent_type = (if dDouban \<and> \<not> dWeb then Detail
                               else if dWeb then Query else General),
                mediaType = map_option mediaOfContext (ctxType context),
                genre = None,
                needWebSearch = dWeb, needDouban = dDouban, needTMDB = dTMDB,
                intent_keywords = (case wq of None \<Rightarrow> []
                                   | Some q \<Rightarrow> if truthy q then [q] else []),
                entities = []\<rparr>,
             optimizedWebSearchQuery = wq,
             optimizedDoubanQuery = member decision (ascii ''doubanQuery'')\<rparr>))"

subsection \<open>Step 2: starting the calls\<close>

text \<open>
  A promise is the requests its call issues and how it settles. The three adapters are
  \<^verbatim>\<open>async\<close> functions whose bodies catch everything, so their promises fulfil.
\<close>

datatype settled = Fulfilled json | Rejected

type_synonym promise = "request list \<times> settled"

definition async :: "request list \<times> json \<Rightarrow> promise" where
  "async r = (fst r, Fulfilled (snd r))"

text \<open>\<^verbatim>\<open>q || d\<close> on an optional value.\<close>

definition valueOr :: "json option \<Rightarrow> json \<Rightarrow> json" where
  "valueOr q d = (case q of None \<Rightarrow> d | Some v \<Rightarrow> if truthy v then v else d)"

definition kindName :: "media_type \<Rightarrow> jsstring" where
  "kindName m =
     (case m of MediaMovie \<Rightarrow> ascii ''movie'' | MediaTv \<Rightarrow> ascii ''tv''
      | MediaVariety \<Rightarrow> ascii ''variety'' | MediaAnime \<Rightarrow> ascii ''anime'')"

definition lit_hot :: jsstring where "lit_hot = [28909, 38376]"   \<comment> \<open>remen: hot\<close>
definition lit_all :: jsstring where "lit_all = [20840, 37096]"   \<comment> \<open>quanbu: all\<close>

definition webSearchKey :: "OrchestratorConfig \<Rightarrow> search_provider \<Rightarrow> jsstring option" where
  "webSearchKey c prov =
     (case prov of Tavily \<Rightarrow> tavilyApiKey c | Serper \<Rightarrow> serperApiKey c
      | SerpApi \<Rightarrow> serpApiKey c)"

definition startWebSearch ::
  "world \<Rightarrow> jsstring \<Rightarrow> OrchestratorConfig option \<Rightarrow> ResolvedIntent \<Rightarrow> promise option" where
  "startWebSearch W userMessage config ri =
     (case config of
        None \<Rightarrow> None
      | Some c \<Rightarrow>
          if needWebSearch (intent ri) \<and> enableWebSearch c then
            (case webSearchProvider c of
               None \<Rightarrow> None
             | Some prov \<Rightarrow>
                (case webSearchKey c prov of
                   None \<Rightarrow> None
                 | Some apiKey \<Rightarrow>
                     if apiKey = [] then None
                     else Some (async (fetchWebSearch W
                            (valueOr (optimizedWebSearchQuery ri) (JStr userMessage))
                            prov apiKey))))
          else None)"

definition startDouban ::
  "world \<Rightarrow> VideoContext option \<Rightarrow> ResolvedIntent \<Rightarrow> promise option" where
  "startDouban W context ri =
     (if needDouban (intent ri) then
        (if numTruthy (ctxDoubanId context) then
           Some (async (fetchDoubanData W (noParams\<lparr>p_id := ctxDoubanId context\<rparr>)))
         else if intent_type (intent ri) = Recommendation then
           Some (async (fetchDoubanData W
                  (noParams\<lparr>p_kind := Some (strOr (map_option kindName (mediaType (intent ri)))
                                                (ascii ''movie'')),
                            p_category := Some lit_hot,
                            p_type := Some (strOr (genre (intent ri)) lit_all)\<rparr>)))
         else if truthyU (optimizedDoubanQuery ri) then
           Some (async (fetchDoubanData W
                  (noParams\<lparr>p_query := optimizedDoubanQuery ri,
                            p_kind := (case mediaType (intent ri) of
                                         Some m \<Rightarrow> Some (kindName m)
                                       | None \<Rightarrow> map_option (kindName \<circ> mediaOfContext)
                                                   (ctxType context))\<rparr>)))
         else if strTruthy (ctxTitle context) then
           Some (async (fetchDoubanData W
                  (noParams\<lparr>p_query := map_option JStr (ctxTitle context),
                            p_kind := map_option (kindName \<circ> mediaOfContext)
                                        (ctxType context)\<rparr>)))
         else None)
      else None)"

definition startTMDB ::
  "world \<Rightarrow> VideoContext option \<Rightarrow> OrchestratorConfig option \<Rightarrow> ResolvedIntent \<Rightarrow>
   promise option" where
  "startTMDB W context config ri =
     (if needTMDB (intent ri) \<and> numTruthy (ctxTmdbId context) \<and> ctxType context \<noteq> None then
        Some (async (fetchTMDBData W (ctxTmdbId context) (ctxType context)
                (case config of None \<Rightarrow> None | Some c \<Rightarrow> tmdbApiKey c)
                (case config of None \<Rightarrow> None | Some c \<Rightarrow> tmdbProxy c)))
      else None)"

subsection \<open>Step 3: the all-settled join and its read-out\<close>

datatype js_error = TypeError

text \<open>\<^verbatim>\<open>dataPromises.push(p)\<close>, done exactly when the promise variable is set.\<close>

definition pushPromise :: "promise option \<Rightarrow> settled list \<Rightarrow> settled list" where
  "pushPromise p dataPromises = (case p of None \<Rightarrow> dataPromises | Some q \<Rightarrow> dataPromises @ [snd q])"

text \<open>
  \<^verbatim>\<open>const result = results[resultIndex++]\<close> and the read of \<^verbatim>\<open>result.status\<close>: past the
  end of the array \<^verbatim>\<open>result\<close> is \<^verbatim>\<open>undefined\<close> and the read throws.
\<close>

definition takeResult ::
  "settled list \<Rightarrow> promise option \<Rightarrow> nat \<Rightarrow> js_error + (json \<times> nat)" where
  "takeResult results p resultIndex =
     (case p of
        None \<Rightarrow> Inr (JNull, resultIndex)
      | Some q \<Rightarrow>
          if resultIndex < length results then
            Inr (case results ! resultIndex of Fulfilled v \<Rightarrow> v | Rejected \<Rightarrow> JNull,
                 Suc resultIndex)
          else Inl TypeError)"

definition fanIn ::
  "promise option \<Rightarrow> promise option \<Rightarrow> promise option \<Rightarrow> js_error + (json \<times> json \<times> json)" where
  "fanIn webSearchPromise doubanPromise tmdbPromise =
     (let results = pushPromise tmdbPromise
                      (pushPromise doubanPromise (pushPromise webSearchPromise []))
      in case takeResult results webSearchPromise 0 of
           Inl e \<Rightarrow> Inl e
         | Inr (webSearchData, i1) \<Rightarrow>
            (case takeResult results doubanPromise i1 of
               Inl e \<Rightarrow> Inl e
             | Inr (doubanData, i2) \<Rightarrow>
                (case takeResult results tmdbPromise i2 of
                   Inl e \<Rightarrow> Inl e
                 | Inr (tmdbData, i3) \<Rightarrow> Inr (webSearchData, doubanData, tmdbData))))"

subsection \<open>Step 4: the system prompt\<close>

text \<open>The literal texts of the source, as code units.\<close>

definition lit_preamble :: jsstring where
  "lit_preamble =
     [20320, 26159, 32, 77, 111, 111, 110, 84, 86, 80, 108, 117, 115, 32, 30340, 32, 65,
      73, 32, 24433, 35270, 21161, 25163, 65292, 19987, 38376, 24110, 21161, 29992,
      25143, 21457, 29616, 21644, 20102, 35299, 24433, 35270, 20869, 23481, 12290, 10,
      10, 35, 35, 32, 20320, 30340, 33021, 21147, 10, 45, 32, 25552, 20379, 24433,
      35270, 25512, 33616, 65288, 22522, 20110, 35910, 29923, 28909, 38376, 27036,
      21333, 21644, 84, 77, 68, 66, 25968, 25454, 65289, 10, 45, 32, 22238, 31572,
      24433, 35270, 30456, 20851, 38382, 39064, 65288, 21095, 24773, 12289, 28436,
      21592, 12289, 35780, 20998, 31561, 65289, 10, 45, 32, 25628, 32034, 26368, 26032,
      24433, 35270, 36164, 35759, 65288, 22914, 26524, 21551, 29992, 20102, 32852,
      32593, 25628, 32034, 65289, 10, 10, 35, 35, 32, 22238, 22797, 35201, 27714, 10,
      49, 46, 32, 35821, 35328, 39118, 26684, 65306, 21451, 22909, 12289, 19987, 19994,
      12289, 31616, 27905, 10, 50, 46, 32, 20449, 24687, 26469, 28304, 65306, 20248,
      20808, 20351, 29992, 25552, 20379, 30340, 25968, 25454, 65292, 35802, 23454,
      21578, 30693, 25968, 25454, 19981, 36275, 10, 51, 46, 32, 25512, 33616, 29702,
      30001, 65306, 35828, 26126, 20026, 20160, 20040, 20540, 24471, 30475, 65292,
      21253, 25324, 35780, 20998, 12289, 31867, 22411, 12289, 29305, 33394, 31561, 10,
      52, 46, 32, 26684, 24335, 28165, 26224, 65306, 20351, 29992, 20998, 27573, 12289,
      21015, 34920, 31561, 35753, 20869, 23481, 26131, 35835, 10, 10]"

definition lit_closing :: jsstring where
  "lit_closing =
     [10, 35, 35, 32, 25968, 25454, 26469, 28304, 20248, 20808, 32423, 10, 49, 46, 32,
      22914, 26524, 26377, 32852, 32593, 25628, 32034, 32467, 26524, 65292, 20248,
      20808, 20351, 29992, 20854, 26368, 26032, 20449, 24687, 10, 50, 46, 32, 35910,
      29923, 25968, 25454, 25552, 20379, 20013, 25991, 35780, 20215, 21644, 35780,
      20998, 65288, 26356, 36866, 21512, 20013, 25991, 29992, 25143, 65289, 10, 51, 46,
      32, 84, 77, 68, 66, 25968, 25454, 26356, 22269, 38469, 21270, 65292, 25552, 20379,
      20851, 38190, 35789, 21644, 30456, 20284, 25512, 33616, 10, 52, 46, 32, 22914,
      26524, 22810, 20010, 25968, 25454, 28304, 26377, 20914, 31361, 65292, 20197,
      32852, 32593, 25628, 32034, 20026, 20934, 10, 53, 46, 32, 22914, 26524, 25968,
      25454, 19981, 36275, 20197, 22238, 31572, 38382, 39064, 65292, 35802, 23454,
      21578, 30693, 29992, 25143, 10, 10, 29616, 22312, 35831, 22238, 31572, 29992,
      25143, 30340, 38382, 39064, 12290]"

definition lit_webHeader :: jsstring where
  "lit_webHeader =
     [10, 35, 35, 32, 12304, 32852, 32593, 25628, 32034, 32467, 26524, 12305, 65288,
      26368, 26032, 23454, 26102, 20449, 24687, 65289, 10]"

definition lit_doubanHeader :: jsstring where
  "lit_doubanHeader =
     [10, 35, 35, 32, 12304, 35910, 29923, 25968, 25454, 12305, 65288, 26435, 23041,
      20013, 25991, 35780, 20998, 21644, 20449, 24687, 65289, 10]"

definition lit_listLead :: jsstring where
  "lit_listLead =
     [25512, 33616, 21015, 34920, 65288]"

definition lit_listMid :: jsstring where
  "lit_listMid =
     [37096, 65289, 58, 10]"

definition lit_searchLead :: jsstring where
  "lit_searchLead =
     [25628, 32034, 32467, 26524, 58, 10]"

definition lit_tmdbHeader :: jsstring where
  "lit_tmdbHeader =
     [10, 35, 35, 32, 12304, 84, 77, 68, 66, 25968, 25454, 12305, 65288, 22269, 38469,
      25968, 25454, 21644, 35814, 32454, 20803, 20449, 24687, 65289, 10]"

definition lit_ctxHeader :: jsstring where
  "lit_ctxHeader =
     [10, 35, 35, 32, 12304, 24403, 21069, 35270, 39057, 19978, 19979, 25991, 12305, 10]"

definition lit_ctxLead :: jsstring where
  "lit_ctxLead =
     [29992, 25143, 27491, 22312, 27983, 35272, 58, 32]"

definition lit_epLead :: jsstring where
  "lit_epLead =
     [65292, 24403, 21069, 31532, 32]"

definition lit_epEnd :: jsstring where
  "lit_epEnd =
     [32, 38598]"

definition lit_fmtTitle :: jsstring where
  "lit_fmtTitle =
     [10, 26631, 39064, 58, 32]"

definition lit_fmtContent :: jsstring where
  "lit_fmtContent =
     [10, 20869, 23481, 58, 32]"

definition lit_fmtSource :: jsstring where
  "lit_fmtSource =
     [10, 26469, 28304, 58, 32]"

definition lit_fmtSnippet :: jsstring where
  "lit_fmtSnippet =
     [10, 25688, 35201, 58, 32]"

text \<open>
  \<^verbatim>\<open>formatSearchResults\<close>. Its \<^verbatim>\<open>try\<close> swallows the \<^verbatim>\<open>TypeError\<close> of a \<^verbatim>\<open>.map\<close>
  on something that is no array, of a property read on a \<^verbatim>\<open>null\<close> item and of a
  field that cannot be converted to a string; the function then returns the empty
  string.
\<close>

fun joinNL :: "jsstring list \<Rightarrow> jsstring" where
  "joinNL [] = []"
| "joinNL [x] = x"
| "joinNL (x # y # ys) = x @ [10] @ joinNL (y # ys)"

text \<open>
  \<^verbatim>\<open>${r.key}\<close> for an item \<open>r\<close> that is not \<^verbatim>\<open>null\<close>: the text of the own property,
  or of the inherited method when the item is a string and the key is \<^verbatim>\<open>link\<close>.
\<close>

definition itemField :: "builtins \<Rightarrow> json \<Rightarrow> jsstring \<Rightarrow> jsstring" where
  "itemField B r k =
     (case r of
        JStr cs \<Rightarrow> if k = ascii ''link'' then nativeFunctionText B k else toStr B None
      | _ \<Rightarrow> toStr B (member r k))"

definition formatItem ::
  "builtins \<Rightarrow> jsstring \<Rightarrow> jsstring \<Rightarrow> jsstring \<Rightarrow> jsstring \<Rightarrow> json \<Rightarrow> jsstring" where
  "formatItem B bodyLabel bodyKey sourceLabel sourceKey r =
     lit_fmtTitle @ itemField B r (ascii ''title'') @
     bodyLabel @ itemField B r bodyKey @
     sourceLabel @ itemField B r sourceKey @ [10]"

text \<open>An item the template cannot print: \<^verbatim>\<open>null\<close>, or one of its three fields throws.\<close>

definition itemThrows :: "jsstring \<Rightarrow> jsstring \<Rightarrow> json \<Rightarrow> bool" where
  "itemThrows bodyKey sourceKey r =
     (r = JNull \<or> \<not> printableU (member r (ascii ''title'')) \<or>
      \<not> printableU (member r bodyKey) \<or> \<not> printableU (member r sourceKey))"

definition formatItems ::
  "builtins \<Rightarrow> jsstring \<Rightarrow> jsstring \<Rightarrow> jsstring \<Rightarrow> jsstring \<Rightarrow> json option \<Rightarrow> jsstring" where
  "formatItems B bodyLabel bodyKey sourceLabel sourceKey v =
     (case v of
        Some (JArr rs) \<Rightarrow>
          if list_ex (itemThrows bodyKey sourceKey) rs then []
          else joinNL (map (formatItem B bodyLabel bodyKey sourceLabel sourceKey) rs)
      | _ \<Rightarrow> [])"

definition formatSearchResults :: "builtins \<Rightarrow> json \<Rightarrow> search_provider \<Rightarrow> jsstring" where
  "formatSearchResults B results prov =
     (if \<not> truthy results then []
      else (case prov of
              Tavily \<Rightarrow>
                formatItems B lit_fmtContent (ascii ''content'') lit_fmtSource (ascii ''url'')
                  (member results (ascii ''results''))
            | Serper \<Rightarrow>
                formatItems B lit_fmtSnippet (ascii ''snippet'') lit_fmtSource (ascii ''link'')
                  (member results (ascii ''organic''))
            | SerpApi \<Rightarrow>
                formatItems B lit_fmtSnippet (ascii ''snippet'') lit_fmtSource (ascii ''link'')
                  (member results (ascii ''organic_results''))))"

text \<open>
  The prompt is built by appending pieces. The model keeps the pieces apart, so that a
  statement can speak of a section being present; the string is their concatenation.
\<close>

datatype prompt_section =
    Preamble
  | WebSearchSection jsstring
  | DoubanListSection nat json
  | DoubanSearchSection json
  | DoubanDetailSection json
  | TMDBSection json
  | ContextSection jsstring "jsstring option" "int option"
  | Closing

definition renderSection :: "builtins \<Rightarrow> prompt_section \<Rightarrow> jsstring" where
  "renderSection B sec =
     (case sec of
        Preamble \<Rightarrow> lit_preamble
      | WebSearchSection formatted \<Rightarrow> lit_webHeader @ formatted @ [10]
      | DoubanListSection n excerpt \<Rightarrow>
          lit_doubanHeader @ lit_listLead @ toStr B (Some (JNum (int n))) @ lit_listMid @
          jsonStringify B excerpt @ [10]
      | DoubanSearchSection excerpt \<Rightarrow>
          lit_doubanHeader @ lit_searchLead @ jsonStringify B excerpt @ [10]
      | DoubanDetailSection excerpt \<Rightarrow> lit_doubanHeader @ jsonStringify B excerpt @ [10]
      | TMDBSection excerpt \<Rightarrow> lit_tmdbHeader @ jsonStringify B excerpt @ [10]
      | ContextSection t y ep \<Rightarrow>
          lit_ctxHeader @ lit_ctxLead @ t @
          (case y of None \<Rightarrow> [] | Some v \<Rightarrow> ascii '' ('' @ v @ ascii '')'') @
          (case ep of None \<Rightarrow> []
           | Some n \<Rightarrow> lit_epLead @ toStr B (Some (JNum n)) @ lit_epEnd) @ [10]
      | Closing \<Rightarrow> lit_closing)"

text \<open>
  An object literal handed to \<^verbatim>\<open>JSON.stringify\<close>: properties whose value is
  \<^verbatim>\<open>undefined\<close> are left out.
\<close>

definition mkObject :: "(jsstring \<times> json option) list \<Rightarrow> json" where
  "mkObject kvs = JObj (List.map_filter (\<lambda>kv. map_option (Pair (fst kv)) (snd kv)) kvs)"

text \<open>
  \<^verbatim>\<open>x?.slice(0, n)\<close>: \<^verbatim>\<open>undefined\<close> for \<^verbatim>\<open>null\<close> and \<^verbatim>\<open>undefined\<close>, the first
  \<open>n\<close> elements of an array or code units of a string, and a \<^verbatim>\<open>TypeError\<close> for any
  other value (it has no \<^verbatim>\<open>slice\<close> function).
\<close>

definition sliceOpt :: "nat \<Rightarrow> json option \<Rightarrow> js_error + json option" where
  "sliceOpt n v =
     (case v of
        None \<Rightarrow> Inr None
      | Some JNull \<Rightarrow> Inr None
      | Some (JArr xs) \<Rightarrow> Inr (Some (JArr (take n xs)))
      | Some (JStr cs) \<Rightarrow> Inr (Some (JStr (take n cs)))
      | Some _ \<Rightarrow> Inl TypeError)"

definition doubanListItem :: "json \<Rightarrow> json" where
  "doubanListItem item =
     mkObject [(ascii ''title'', member item (ascii ''title'')),
               (ascii ''rating'', member item (ascii ''rating'')),
               (ascii ''year'', member item (ascii ''year'')),
               (ascii ''genres'', member item (ascii ''genres'')),
               (ascii ''directors'', member item (ascii ''directors'')),
               (ascii ''actors'', member item (ascii ''actors''))]"

text \<open>
  The Douban section, for a truthy \<^verbatim>\<open>doubanData\<close>. Nothing catches here: a
  \<^verbatim>\<open>list\<close> that is no array, a \<^verbatim>\<open>null\<close> among its first ten items, \<^verbatim>\<open>items\<close> or
  \<^verbatim>\<open>reviews\<close> without a \<^verbatim>\<open>slice\<close> function throw out of the orchestrator.
\<close>

definition doubanSection :: "json \<Rightarrow> js_error + prompt_section" where
  "doubanSection doubanData =
     (if truthyU (member doubanData (ascii ''list'')) then
        (case member doubanData (ascii ''list'') of
           Some (JArr xs) \<Rightarrow>
             if list_ex (\<lambda>item. item = JNull) (take 10 xs) then Inl TypeError
             else Inr (DoubanListSection (length xs) (JArr (map doubanListItem (take 10 xs))))
         | _ \<Rightarrow> Inl TypeError)
      else if truthyU (member doubanData (ascii ''items'')) then
        (case member doubanData (ascii ''items'') of
           Some (JArr xs) \<Rightarrow> Inr (DoubanSearchSection (JArr (take 5 xs)))
         | Some (JStr cs) \<Rightarrow> Inr (DoubanSearchSection (JStr (take 5 cs)))
         | _ \<Rightarrow> Inl TypeError)
      else
        (case sliceOpt 2 (member doubanData (ascii ''reviews'')) of
           Inl e \<Rightarrow> Inl e
         | Inr reviews \<Rightarrow>
             Inr (DoubanDetailSection
                   (mkObject [(ascii ''title'', member doubanData (ascii ''title'')),
                              (ascii ''rating'', member doubanData (ascii ''rating'')),
                              (ascii ''year'', member doubanData (ascii ''year'')),
                              (ascii ''genres'', member doubanData (ascii ''genres'')),
                              (ascii ''directors'', member doubanData (ascii ''directors'')),
                              (ascii ''actors'', member doubanData (ascii ''actors'')),
                              (ascii ''intro'', member doubanData (ascii ''intro'')),
                              (ascii ''reviews'', reviews)]))))"

text \<open>The TMDB section, for a truthy \<^verbatim>\<open>tmdbData\<close>; \<^verbatim>\<open>similar?.slice(0, 5)\<close> can throw.\<close>

definition tmdbSection :: "json \<Rightarrow> js_error + prompt_section" where
  "tmdbSection tmdbData =
     (case sliceOpt 5 (member tmdbData (ascii ''similar'')) of
        Inl e \<Rightarrow> Inl e
      | Inr similar \<Rightarrow>
          Inr (TMDBSection
                (mkObject [(ascii ''title'',
                              (if truthyU (member tmdbData (ascii ''title''))
                               then member tmdbData (ascii ''title'')
                               else member tmdbData (ascii ''name''))),
                           (ascii ''overview'', member tmdbData (ascii ''overview'')),
                           (ascii ''vote_average'', member tmdbData (ascii ''vote_average'')),
                           (ascii ''genres'', member tmdbData (ascii ''genres'')),
                           (ascii ''keywords'', member tmdbData (ascii ''keywords'')),
                           (ascii ''similar'', similar)])))"

definition webSection :: "builtins \<Rightarrow> OrchestratorConfig option \<Rightarrow> json \<Rightarrow> prompt_section list" where
  "webSection B config webSearchData =
     (case (if truthy webSearchData then config else None) of
        None \<Rightarrow> []
      | Some c \<Rightarrow>
         (case webSearchProvider c of
            None \<Rightarrow> []
          | Some prov \<Rightarrow>
              (let formattedSearch = formatSearchResults B webSearchData prov
               in if formattedSearch \<noteq> [] then [WebSearchSection formattedSearch] else [])))"

definition contextSection :: "VideoContext option \<Rightarrow> prompt_section list" where
  "contextSection context =
     (case context of
        None \<Rightarrow> []
      | Some c \<Rightarrow>
         (case title c of
            None \<Rightarrow> []
          | Some t \<Rightarrow>
              if t = [] then []
              else [ContextSection t
                      (if strTruthy (year c) then year c else None)
                      (if numTruthy (currentEpisode c) then currentEpisode c else None)]))"

definition buildSections ::
  "builtins \<Rightarrow> OrchestratorConfig option \<Rightarrow> VideoContext option \<Rightarrow> json \<Rightarrow> json \<Rightarrow> json \<Rightarrow>
   js_error + prompt_section list" where
  "buildSections B config context webSearchData doubanData tmdbData =
     (case (if truthy doubanData then map_sum id (\<lambda>sec. [sec]) (doubanSection doubanData)
            else Inr []) of
        Inl e \<Rightarrow> Inl e
      | Inr douban \<Rightarrow>
         (case (if truthy tmdbData then map_sum id (\<lambda>sec. [sec]) (tmdbSection tmdbData)
                else Inr []) of
            Inl e \<Rightarrow> Inl e
          | Inr tmdb \<Rightarrow>
              Inr ([Preamble] @ webSection B config webSearchData @ douban @ tmdb @
                   contextSection context @ [Closing])))"

subsection \<open>orchestrateDataSources\<close>

record OrchestrationResult =
  systemPrompt :: jsstring
  webSearchResults :: json
  doubanData :: json
  tmdbData :: json

text \<open>
  One run of the orchestrator: the requests it issued, in the order it started them,
  and how it ended: a thrown error (the returned promise rejects), or the sections of
  the prompt with the returned object.
\<close>

record Orchestration =
  issued :: "request list"
  ended :: "js_error + prompt_section list \<times> OrchestrationResult"

definition promiseCalls :: "promise option \<Rightarrow> request list" where
  "promiseCalls p = (case p of None \<Rightarrow> [] | Some q \<Rightarrow> fst q)"

definition orchestrateDataSources ::
  "builtins \<Rightarrow> world \<Rightarrow> jsstring \<Rightarrow> VideoContext option \<Rightarrow> OrchestratorConfig option \<Rightarrow>
   Orchestration" where
  "orchestrateDataSources B W userMessage context config =
     (let decision = decide W userMessage context config;
          ri = resolveIntent B userMessage context (snd decision);
          webSearchPromise = startWebSearch W userMessage config ri;
          doubanPromise = startDouban W context ri;
          tmdbPromise = startTMDB W context config ri
      in \<lparr>issued = fst decision @ promiseCalls webSearchPromise @ promiseCalls doubanPromise @
                    promiseCalls tmdbPromise,
          ended =
            (case fanIn webSearchPromise doubanPromise tmdbPromise of
               Inl e \<Rightarrow> Inl e
             | Inr (webSearchValue, doubanValue, tmdbValue) \<Rightarrow>
                (case buildSections B config context webSearchValue doubanValue tmdbValue of
                   Inl e \<Rightarrow> Inl e
                 | Inr secs \<Rightarrow>
                     Inr (secs,
                          \<lparr>systemPrompt = concat (map (renderSection B) secs),
                           webSearchResults = webSearchValue,
                           doubanData = doubanValue,
                           tmdbData = tmdbValue\<rparr>)))\<rparr>)"

section \<open>The chat endpoint (route.ts, POST)\<close>

record AIConfig =
  Enabled :: bool
  AllowRegularUsers :: bool
  EnableWebSearch :: bool
  WebSearchProvider :: "search_provider option"
  TavilyApiKey :: "jsstring option"
  SerperApiKey :: "jsstring option"
  SerpApiKey :: "jsstring option"
  EnableDecisionModel :: "bool option"
  DecisionCustomModel :: "jsstring option"
  CustomApiKey :: "jsstring option"
  CustomBaseURL :: "jsstring option"
  CustomModel :: "jsstring option"
  SystemPrompt :: "jsstring option"

text \<open>\<^verbatim>\<open>adminConfig\<close>: its \<^verbatim>\<open>AIConfig\<close> and the two \<^verbatim>\<open>SiteConfig\<close> fields read.\<close>

record AdminConfig =
  AIConfigOf :: "AIConfig option"
  TMDBApiKey :: "jsstring option"
  TMDBProxy :: "jsstring option"

record UserInfo =
  role :: jsstring
  banned :: bool

text \<open>The parsed body: \<^verbatim>\<open>message\<close> is whatever JSON value the client sent, if any.\<close>

record ChatRequest =
  message :: "json option"
  request_context :: "VideoContext option"
  history :: "ChatMessage list"

text \<open>
  What the endpoint consults besides the providers:
  \<^item> \<open>authInfo\<close>: \<^verbatim>\<open>getAuthInfoFromCookie(request)\<close>, \<open>None\<close> for \<^verbatim>\<open>null\<close>, else the
    object's \<^verbatim>\<open>username\<close>;
  \<^item> \<open>getConfig\<close>: the admin configuration, \<open>None\<close> when the read rejects;
  \<^item> \<open>envUSERNAME\<close>: \<^verbatim>\<open>process.env.USERNAME\<close>;
  \<^item> \<open>getUserInfoV2\<close>: the user record, \<open>None\<close> when the read rejects, \<open>Some None\<close>
    for \<^verbatim>\<open>null\<close>;
  \<^item> \<open>requestJson\<close>: \<^verbatim>\<open>request.json()\<close>, \<open>None\<close> when it rejects or the body cannot be
    destructured;
  \<^item> \<open>chatBody\<close>: the body of the streaming completion, \<open>None\<close> when the fetch rejects
    or the status is not ok (\<^verbatim>\<open>streamOpenAIChat\<close> throws).
\<close>

record Server =
  authInfo :: "jsstring option option"
  getConfig :: "AdminConfig option"
  envUSERNAME :: "jsstring option"
  getUserInfoV2 :: "jsstring \<Rightarrow> UserInfo option option"
  requestJson :: "ChatRequest option"
  chatBody :: "request \<Rightarrow> (8 word list list \<times> upstream_end) option"

datatype error_body =
    Unauthorized | AIDisabled | OwnerAdminOnly | EmptyMessage | CustomApiIncomplete | ChatFailed

datatype response = JsonError nat error_body | EventStream "event list \<times> output_end"

text \<open>Step 3, the permission check: \<open>None\<close> lets the request through.\<close>

definition permissionCheck :: "Server \<Rightarrow> AIConfig \<Rightarrow> jsstring \<Rightarrow> response option" where
  "permissionCheck S ai username =
     (if AllowRegularUsers ai then None
      else if envUSERNAME S = Some username then None
      else (case getUserInfoV2 S username of
              None \<Rightarrow> Some (JsonError 500 ChatFailed)
            | Some None \<Rightarrow> Some (JsonError 403 OwnerAdminOnly)
            | Some (Some userInfo) \<Rightarrow>
                if (role userInfo \<noteq> ascii ''admin'' \<and> role userInfo \<noteq> ascii ''owner'') \<or>
                   banned userInfo
                then Some (JsonError 403 OwnerAdminOnly)
                else None))"

definition orchestratorConfig :: "AdminConfig \<Rightarrow> AIConfig \<Rightarrow> OrchestratorConfig" where
  "orchestratorConfig adminConfig ai =
     \<lparr>enableWebSearch = EnableWebSearch ai,
      webSearchProvider = WebSearchProvider ai,
      tavilyApiKey = TavilyApiKey ai,
      serperApiKey = SerperApiKey ai,
      serpApiKey = SerpApiKey ai,
      tmdbApiKey = TMDBApiKey adminConfig,
      tmdbProxy = TMDBProxy adminConfig,
      enableDecisionModel = EnableDecisionModel ai,
      decisionProvider = Some Custom,
      decisionApiKey = CustomApiKey ai,
      decisionBaseURL = CustomBaseURL ai,
      decisionModel = DecisionCustomModel ai\<rparr>"

definition lit_understood :: jsstring where   \<comment> \<open>the canned assistant acknowledgement\<close>
  "lit_understood =
     [26126, 30333, 20102, 65292, 25105, 20250, 25353, 29031, 35201, 27714, 22238, 31572, 29992, 25143, 30340, 38382, 39064, 12290]"

definition chatMessages :: "AIConfig \<Rightarrow> jsstring \<Rightarrow> ChatMessage list \<Rightarrow> jsstring \<Rightarrow> ChatMessage list" where
  "chatMessages ai prompt hist msg =
     [(RoleUser, (case SystemPrompt ai of
                    None \<Rightarrow> prompt
                  | Some sp \<Rightarrow> if sp = [] then prompt else sp @ [10, 10] @ prompt)),
      (RoleAssistant, lit_understood)] @ hist @ [(RoleUser, msg)]"

text \<open>
  Steps 4 to 7, once the message is known to be a non-empty string: orchestrate, build
  the messages, check the custom API settings, call the model, transform its stream. An
  error thrown anywhere is the \<^verbatim>\<open>catch\<close>'s 500 response.
\<close>

definition answer ::
  "builtins \<Rightarrow> world \<Rightarrow> Server \<Rightarrow> AdminConfig \<Rightarrow> AIConfig \<Rightarrow> ChatRequest \<Rightarrow> jsstring \<Rightarrow>
   request list \<times> response" where
  "answer B W S adminConfig ai body msg =
     (let orch = orchestrateDataSources B W msg (request_context body)
                   (Some (orchestratorConfig adminConfig ai))
      in case ended orch of
           Inl e \<Rightarrow> (issued orch, JsonError 500 ChatFailed)
         | Inr (secs, orchestrationResult) \<Rightarrow>
            (case (CustomApiKey ai, CustomBaseURL ai) of
               (Some key, Some baseURL) \<Rightarrow>
                 if key = [] \<or> baseURL = [] then (issued orch, JsonError 400 CustomApiIncomplete)
                 else
                   (let req = ChatCompletionRequest key baseURL
                                (strOr (CustomModel ai) (ascii ''gpt-3.5-turbo''))
                                (chatMessages ai (systemPrompt orchestrationResult)
                                   (history body) msg)
                    in case chatBody S req of
                         None \<Rightarrow> (issued orch @ [req], JsonError 500 ChatFailed)
                       | Some upstream \<Rightarrow>
                           (issued orch @ [req], EventStream (transformToSSE B OpenAI upstream)))
             | _ \<Rightarrow> (issued orch, JsonError 400 CustomApiIncomplete)))"

definition POST :: "builtins \<Rightarrow> world \<Rightarrow> Server \<Rightarrow> request list \<times> response" where
  "POST B W S =
     (case authInfo S of
        None \<Rightarrow> ([], JsonError 401 Unauthorized)
      | Some None \<Rightarrow> ([], JsonError 401 Unauthorized)
      | Some (Some username) \<Rightarrow>
          if username = [] then ([], JsonError 401 Unauthorized)
          else
            (case getConfig S of
               None \<Rightarrow> ([], JsonError 500 ChatFailed)
             | Some adminConfig \<Rightarrow>
                (case AIConfigOf adminConfig of
                   None \<Rightarrow> ([], JsonError 400 AIDisabled)
                 | Some ai \<Rightarrow>
                     if \<not> Enabled ai then ([], JsonError 400 AIDisabled)
                     else
                       (case permissionCheck S ai username of
                          Some refusal \<Rightarrow> ([], refusal)
                        | None \<Rightarrow>
                           (case requestJson S of
                              None \<Rightarrow> ([], JsonError 500 ChatFailed)
                            | Some body \<Rightarrow>
                               (case message body of
                                  Some (JStr msg) \<Rightarrow>
                                    if msg = [] then ([], JsonError 400 EmptyMessage)
                                    else answer B W S adminConfig ai body msg
                                | _ \<Rightarrow> ([], JsonError 400 EmptyMessage)))))))"

section \<open>Notions used by the statements\<close>

text \<open>
  An invariant of the UTF-8 decoder: the lower boundary of a continuation byte never
  falls below \<open>0x80\<close>, so a line feed always ends an open sequence.
\<close>

definition lowerOk :: "utf8_decoder \<Rightarrow> bool" where
  "lowerOk d = (0x80 \<le> lowerBoundary d)"

definition decoderOk :: "text_decoder \<Rightarrow> bool" where
  "decoderOk td = lowerOk (utf8 td)"

text \<open>The decoder right after a line feed: nothing pending, the BOM question settled.\<close>

definition lineStart :: text_decoder where
  "lineStart = \<lparr>utf8 = utf8_reset, bomSeen = True\<rparr>"

text \<open>The value the read-out takes for a source: \<^verbatim>\<open>null\<close> when its call was not
  started or its promise rejected, the fulfilled value otherwise.\<close>

definition settledValue :: "promise option \<Rightarrow> json" where
  "settledValue p =
     (case p of None \<Rightarrow> JNull
      | Some q \<Rightarrow> (case snd q of Fulfilled v \<Rightarrow> v | Rejected \<Rightarrow> JNull))"

text \<open>
  The decoded texts of the chunks read, and the lines the transformer looks at: the
  non-blank lines of each chunk's text, chunk by chunk.
\<close>

fun decodeChunks :: "text_decoder \<Rightarrow> 8 word list list \<Rightarrow> jsstring list" where
  "decodeChunks td [] = []"
| "decodeChunks td (value # rest) = fst (decode td value) # decodeChunks (snd (decode td value)) rest"

definition observedLines :: "8 word list list \<Rightarrow> jsstring list" where
  "observedLines chunks = concat (map chunkLines (decodeChunks newTextDecoder chunks))"

text \<open>A line that carries the upstream sentinel.\<close>

definition isDoneLine :: "jsstring \<Rightarrow> bool" where
  "isDoneLine line = (startsWith line (ascii ''data: '') \<and> trim (drop 6 line) = ascii ''[DONE]'')"

text \<open>The text of a run of bytes that follows a line feed and is followed by one.\<close>

definition lineText :: "8 word list \<Rightarrow> jsstring" where
  "lineText bytes = butlast (fst (decode lineStart (bytes @ [10])))"

text \<open>The decoder after a run of chunks.\<close>

definition decoderAfter :: "text_decoder \<Rightarrow> 8 word list list \<Rightarrow> text_decoder" where
  "decoderAfter td cs = foldl (\<lambda>t c. snd (decode t c)) td cs"

text \<open>The source a request goes to.\<close>

definition isDecisionCall :: "request \<Rightarrow> bool" where
  "isDecisionCall r = (case r of DecisionRequest p k b m u c a \<Rightarrow> True | _ \<Rightarrow> False)"

definition isWebSearchCall :: "request \<Rightarrow> bool" where
  "isWebSearchCall r = (case r of WebSearchRequest p q k \<Rightarrow> True | _ \<Rightarrow> False)"

definition isDoubanCall :: "request \<Rightarrow> bool" where
  "isDoubanCall r =
     (case r of DoubanDetailRequest n \<Rightarrow> True | DoubanHotRequest k c t \<Rightarrow> True
      | DoubanSearchRequest k q \<Rightarrow> True | _ \<Rightarrow> False)"

definition isTMDBCall :: "request \<Rightarrow> bool" where
  "isTMDBCall r = (case r of TMDBRequest t n k \<Rightarrow> True | _ \<Rightarrow> False)"

text \<open>The availability map of a decision request (all false for any other request).\<close>

definition availabilityOf :: "request \<Rightarrow> availability" where
  "availabilityOf r =
     (case r of DecisionRequest p k b m u c a \<Rightarrow> a
      | _ \<Rightarrow> \<lparr>avail_webSearch = False, avail_douban = False, avail_tmdb = False\<rparr>)"

definition isWebSearchSection :: "prompt_section \<Rightarrow> bool" where
  "isWebSearchSection sec = (case sec of WebSearchSection f \<Rightarrow> True | _ \<Rightarrow> False)"

text \<open>Whether a configuration has web search, and whether it has a TMDB key.\<close>

definition webSearchConfigured :: "OrchestratorConfig option \<Rightarrow> bool" where
  "webSearchConfigured config = (case config of None \<Rightarrow> False | Some c \<Rightarrow> hasWebSearchProvider c)"

definition tmdbConfigured :: "OrchestratorConfig option \<Rightarrow> bool" where
  "tmdbConfigured config = (case config of None \<Rightarrow> False | Some c \<Rightarrow> hasTMDB c)"

text \<open>
  The payload shapes the prompt assembly relies on. A catalog payload is a listing (a
  \<^verbatim>\<open>list\<close> array of objects), search results (an \<^verbatim>\<open>items\<close> array) or a detail object
  (\<^verbatim>\<open>reviews\<close> absent, \<^verbatim>\<open>null\<close> or an array); an international payload has \<^verbatim>\<open>similar\<close>
  absent, \<^verbatim>\<open>null\<close> or an array.
\<close>

definition isObject :: "json \<Rightarrow> bool" where
  "isObject j = (case j of JObj kvs \<Rightarrow> True | _ \<Rightarrow> False)"

definition absentOrArray :: "json option \<Rightarrow> bool" where
  "absentOrArray v =
     (case v of None \<Rightarrow> True | Some JNull \<Rightarrow> True | Some (JArr xs) \<Rightarrow> True | _ \<Rightarrow> False)"

definition catalogShaped :: "json \<Rightarrow> bool" where
  "catalogShaped d =
     (if truthyU (member d (ascii ''list'')) then
        (case member d (ascii ''list'') of Some (JArr xs) \<Rightarrow> list_all isObject xs | _ \<Rightarrow> False)
      else if truthyU (member d (ascii ''items'')) then
        (case member d (ascii ''items'') of Some (JArr xs) \<Rightarrow> True | _ \<Rightarrow> False)
      else absentOrArray (member d (ascii ''reviews'')))"

definition internationalShaped :: "json \<Rightarrow> bool" where
  "internationalShaped t = absentOrArray (member t (ascii ''similar''))"

definition wellShaped :: "world \<Rightarrow> bool" where
  "wellShaped W =
     (\<forall>r j. W r = Replied j \<longrightarrow>
        (isDoubanCall r \<longrightarrow> catalogShaped j) \<and> (isTMDBCall r \<longrightarrow> internationalShaped j))"

text \<open>The prompt of a run that returned (the empty string stands for a run that threw).\<close>

definition promptOf :: "Orchestration \<Rightarrow> jsstring" where
  "promptOf run = (case ended run of Inl e \<Rightarrow> [] | Inr x \<Rightarrow> systemPrompt (snd x))"

definition sectionsOf :: "Orchestration \<Rightarrow> prompt_section list" where
  "sectionsOf run = (case ended run of Inl e \<Rightarrow> [] | Inr x \<Rightarrow> fst x)"

definition returned :: "Orchestration \<Rightarrow> bool" where
  "returned run = (case ended run of Inl e \<Rightarrow> False | Inr x \<Rightarrow> True)"

text \<open>The checks of the endpoint that stand before the call of the orchestrator.\<close>

definition unauthenticated :: "Server \<Rightarrow> bool" where
  "unauthenticated S =
     (case authInfo S of None \<Rightarrow> True | Some None \<Rightarrow> True | Some (Some u) \<Rightarrow> u = [])"

definition aiDisabled :: "Server \<Rightarrow> bool" where
  "aiDisabled S =
     (case getConfig S of
        None \<Rightarrow> False
      | Some adminConfig \<Rightarrow>
          (case AIConfigOf adminConfig of None \<Rightarrow> True | Some ai \<Rightarrow> \<not> Enabled ai))"

definition roleRefused :: "Server \<Rightarrow> bool" where
  "roleRefused S =
     (case (authInfo S, getConfig S) of
        (Some (Some u), Some adminConfig) \<Rightarrow>
          (case AIConfigOf adminConfig of
             None \<Rightarrow> False
           | Some ai \<Rightarrow> permissionCheck S ai u = Some (JsonError 403 OwnerAdminOnly))
      | _ \<Rightarrow> False)"

definition messageInvalid :: "Server \<Rightarrow> bool" where
  "messageInvalid S =
     (case requestJson S of
        None \<Rightarrow> False
      | Some body \<Rightarrow> (case message body of Some (JStr m) \<Rightarrow> m = [] | _ \<Rightarrow> True))"

definition isErrorResponse :: "response \<Rightarrow> bool" where
  "isErrorResponse resp = (case resp of JsonError status err \<Rightarrow> status \<noteq> 200 | EventStream s \<Rightarrow> False)"

section \<open>Concrete scenarios\<close>

text \<open>
  Stand-ins for the platform's built-ins, used where a statement is instantiated at a
  concrete input. \<open>sampleParse\<close> knows the four texts the scenarios parse and rejects
  everything else; on the texts the scenarios hand it, \<^verbatim>\<open>JSON.parse\<close> gives the same
  answers. \<open>asciiLower\<close> is \<^verbatim>\<open>toLowerCase\<close> on strings whose only cased letters are
  ASCII.
\<close>

definition asciiBytes :: "string \<Rightarrow> 8 word list" where
  "asciiBytes s = map of_char s"

definition openaiDelta :: "string \<Rightarrow> string" where
  \<open>openaiDelta d = ''{"choices":[{"delta":{"content":"'' @ d @ ''"}}]}''\<close>

definition deltaJson :: "string \<Rightarrow> json" where
  "deltaJson d =
     JObj [(ascii ''choices'',
            JArr [JObj [(ascii ''delta'', JObj [(ascii ''content'', JStr (ascii d))])]])]"

definition sampleParse :: "jsstring \<Rightarrow> json option" where
  "sampleParse s =
     (if s = ascii (openaiDelta ''Hel'') then Some (deltaJson ''Hel'')
      else if s = ascii (openaiDelta ''lo'') then Some (deltaJson ''lo'')
      else if s = ascii (openaiDelta '' world'') then Some (deltaJson '' world'')
      else if s = ascii ''null'' then Some JNull
      else None)"

definition asciiLower :: "jsstring \<Rightarrow> jsstring" where
  "asciiLower s = map (\<lambda>c. if 65 \<le> c \<and> c \<le> 90 then c + 32 else c) s"

definition sampleBuiltins :: builtins where
  "sampleBuiltins =
     \<lparr>jsonParse = sampleParse,
      jsonStringify = (\<lambda>j. ascii ''{}''),
      toStr = (\<lambda>v. ascii ''undefined''),
      nativeFunctionText = (\<lambda>k. ascii ''function '' @ k @ ascii ''() { [native code] }''),
      toLowerCase = asciiLower\<rparr>"

text \<open>The two messages of the end-to-end scenarios.\<close>

definition msgWhatIsItAbout :: jsstring where   \<comment> \<open>zhe bu dianying jiang de shi shenme\<close>
  "msgWhatIsItAbout = [36825, 37096, 30005, 24433, 35762, 30340, 26159, 20160, 20040]"

definition msgWhenSeasonTwo :: jsstring where   \<comment> \<open>zhe bu ju shenme shihou chu di er ji\<close>
  "msgWhenSeasonTwo =
     [36825, 37096, 21095, 20160, 20040, 26102, 20505, 20986, 31532, 20108, 23395]"

definition noContext :: VideoContext where
  "noContext = \<lparr>title = None, year = None, douban_id = None, tmdb_id = None,
                 ctx_type = None, currentEpisode = None\<rparr>"

definition matrixContext :: VideoContext where
  "matrixContext = noContext\<lparr>tmdb_id := Some 603, ctx_type := Some Movie\<rparr>"

definition titledContext :: VideoContext where
  "titledContext = noContext\<lparr>title := Some (ascii ''Dark'')\<rparr>"

definition noKeysConfig :: OrchestratorConfig where
  "noKeysConfig =
     \<lparr>enableWebSearch = False, webSearchProvider = None, tavilyApiKey = None,
      serperApiKey = None, serpApiKey = None, tmdbApiKey = None, tmdbProxy = None,
      enableDecisionModel = None, decisionProvider = None, decisionApiKey = None,
      decisionBaseURL = None, decisionModel = None\<rparr>"

definition allKeysConfig :: OrchestratorConfig where
  "allKeysConfig =
     noKeysConfig\<lparr>enableWebSearch := True, webSearchProvider := Some Tavily,
                  tavilyApiKey := Some (ascii ''tvly-key''),
                  tmdbApiKey := Some (ascii ''tmdb-key'')\<rparr>"

text \<open>A world where web search and Douban answer and TMDB times out.\<close>

definition tmdbTimesOut :: world where
  "tmdbTimesOut r =
     (case r of
        WebSearchRequest prov q k \<Rightarrow> Replied (JObj [(ascii ''results'', JArr [])])
      | DoubanSearchRequest kind q \<Rightarrow> Replied (JObj [(ascii ''title'', q)])
      | TMDBRequest t n k \<Rightarrow> Failed TimedOut
      | _ \<Rightarrow> Failed NetworkError)"

text \<open>The titled context with the TMDB id and the type of the film.\<close>

definition richContext :: VideoContext where
  "richContext = titledContext\<lparr>tmdb_id := Some 603, ctx_type := Some Movie\<rparr>"

text \<open>
  The synthetic OpenAI-compatible stream of the fidelity property: three delta events
  and the sentinel, each followed by a blank line.
\<close>

definition dataLine :: "string \<Rightarrow> 8 word list" where
  "dataLine payload = asciiBytes (''data: '' @ payload) @ [10, 10]"

definition helloStream :: "8 word list" where
  "helloStream =
     dataLine (openaiDelta ''Hel'') @ dataLine (openaiDelta ''lo'') @
     dataLine (openaiDelta '' world'') @ dataLine ''[DONE]''"

text \<open>An event line as decoded text.\<close>

definition eventLine :: "string \<Rightarrow> jsstring" where
  "eventLine payload = ascii ''data: '' @ ascii payload"

text \<open>A truncated JSON line, and a delta line cut in two inside its payload.\<close>

definition brokenLine :: "8 word list" where
  \<open>brokenLine = asciiBytes ''data: {"choices":[{"delta":''\<close>

definition splitHead :: "8 word list" where
  \<open>splitHead = asciiBytes ''data: {"choices":[{"delta":{"con''\<close>

definition splitTail :: "8 word list" where
  \<open>splitTail = asciiBytes ''tent":"Hel"}}]}'' @ [10, 10]\<close>

text \<open>Worlds: everything down; a decision model that asks for every source; TMDB
  answering in the shape of its API, where \<^verbatim>\<open>similar\<close> is a page object.\<close>

definition allDown :: world where
  "allDown r = Failed NetworkError"

definition greedyDecision :: world where
  "greedyDecision r =
     (case r of
        DecisionRequest p k b m u c a \<Rightarrow>
          Replied (JObj [(ascii ''needWebSearch'', JBool True),
                         (ascii ''needDouban'', JBool False),
                         (ascii ''needTMDB'', JBool True)])
      | _ \<Rightarrow> Failed NetworkError)"

definition tmdbAnswers :: world where
  "tmdbAnswers r =
     (case r of
        TMDBRequest t n k \<Rightarrow>
          Replied (JObj [(ascii ''title'', JStr (ascii ''The Matrix'')),
                         (ascii ''similar'',
                          JObj [(ascii ''page'', JNum 1), (ascii ''results'', JArr [])])])
      | _ \<Rightarrow> Failed NetworkError)"

definition decisionOnlyConfig :: OrchestratorConfig where
  "decisionOnlyConfig =
     noKeysConfig\<lparr>enableDecisionModel := Some True, decisionProvider := Some Custom,
                  decisionApiKey := Some (ascii ''sk-key''),
                  decisionModel := Some (ascii ''gpt-4o-mini'')\<rparr>"

text \<open>
  A request to the endpoint that passes every check before the orchestrator: a
  logged-in user, the AI feature enabled for regular users, the season-two question with
  a title and a TMDB id, web search and TMDB configured, and no custom LLM key or base
  URL.
\<close>

definition sampleAIConfig :: AIConfig where
  "sampleAIConfig =
     \<lparr>Enabled = True, AllowRegularUsers = True, EnableWebSearch = True,
      WebSearchProvider = Some Tavily, TavilyApiKey = Some (ascii ''tvly-key''),
      SerperApiKey = None, SerpApiKey = None, EnableDecisionModel = None,
      DecisionCustomModel = None, CustomApiKey = None, CustomBaseURL = None,
      CustomModel = None, SystemPrompt = None\<rparr>"

definition sampleServer :: Server where
  "sampleServer =
     \<lparr>authInfo = Some (Some (ascii ''alice'')),
      getConfig = Some \<lparr>AIConfigOf = Some sampleAIConfig,
                         TMDBApiKey = Some (ascii ''tmdb-key''), TMDBProxy = None\<rparr>,
      envUSERNAME = Some (ascii ''admin''),
      getUserInfoV2 = (\<lambda>u. Some None),
      requestJson = Some \<lparr>message = Some (JStr msgWhenSeasonTwo),
                           request_context = Some richContext, history = []\<rparr>,
      chatBody = (\<lambda>r. None)\<rparr>"

text \<open>The same server, asked what the film is about, with the TMDB id alone.\<close>

definition matrixServer :: Server where
  "matrixServer =
     sampleServer\<lparr>requestJson := Some \<lparr>message = Some (JStr msgWhatIsItAbout),
                                          request_context = Some matrixContext,
                                          history = []\<rparr>\<rparr>"

section \<open>Properties\<close>

text \<open>The unfoldings that evaluate the model at a concrete input.\<close>

lemmas scenario_defs =
  msgWhatIsItAbout_def msgWhenSeasonTwo_def noContext_def matrixContext_def titledContext_def
  richContext_def noKeysConfig_def allKeysConfig_def decisionOnlyConfig_def sampleBuiltins_def
  asciiLower_def

lemmas intent_defs =
  analyzeIntent_def someIncluded_def timeKeywords_def recommendKeywords_def personKeywords_def
  plotKeywords_def kw_movie_def kw_tvSeries_def kw_series_def kw_variety_def kw_anime_def
  kw_animation_def kw_thisOne_def kw_news_def strTruthy_def numTruthy_def ctxTitle_def
  ctxType_def ctxDoubanId_def ctxTmdbId_def ascii_def

lemmas start_defs =
  decide_def resolveIntent_def startWebSearch_def startDouban_def startTMDB_def
  webSearchKey_def valueOr_def fetchWebSearch_def fetchDoubanData_def fetchDoubanHot_def
  fetchDoubanSearch_def fetchTMDBData_def call_def orNull_def async_def noParams_def
  strOr_def kindName_def mediaOfContext_def callDecisionModel_def availableDataSources_def
  hasWebSearchProvider_def hasTMDB_def isHighSurrogate_def isLowSurrogate_def

lemmas prompt_defs =
  buildSections_def webSection_def formatSearchResults_def formatItems_def doubanSection_def
  tmdbSection_def sliceOpt_def contextSection_def mkObject_def List.map_filter_def

lemma splitNL_nonempty: "splitNL s \<noteq> []"
  by (induction s) (auto split: list.splits)

subsection \<open>Lines and chunks\<close>

lemma splitNL_append_newline: "splitNL (a @ 10 # b) = splitNL a @ splitNL b"
  by (induction a) (auto split: list.splits simp: splitNL_nonempty)

lemma splitNL_single: "10 \<notin> set s \<Longrightarrow> splitNL s = [s]"
  by (induction s) auto

lemma trim_Nil: "trim [] = []"
  by (simp add: trim_def)

lemma chunkLines_Nil: "chunkLines [] = []"
  by (simp add: chunkLines_def trim_Nil)

lemma chunkLines_append_newline: "chunkLines (a @ 10 # b) = chunkLines a @ chunkLines b"
  by (simp add: chunkLines_def splitNL_append_newline)

lemma processChunk_Nil: "processChunk B p [] = []"
  by (simp add: processChunk_def chunkLines_Nil)

lemma processChunk_append_newline:
  "processChunk B p (a @ 10 # b) = processChunk B p a @ processChunk B p b"
  by (simp add: processChunk_def chunkLines_append_newline)

lemma processChunk_newline_end: "processChunk B p (a @ [10]) = processChunk B p a"
  using processChunk_append_newline [of B p a "[]"] by (simp add: processChunk_Nil)

lemma processChunk_line:
  "10 \<notin> set s \<Longrightarrow> processChunk B p s = (if trim s = [] then [] else processLine B p s)"
  by (simp add: processChunk_def chunkLines_def splitNL_single)

text \<open>The decoder: output accumulates, and a run over appended bytes is two runs.\<close>

lemma utf8_run_out: "utf8_run out d bs = (out @ fst (utf8_run [] d bs), snd (utf8_run [] d bs))"
proof (induction bs arbitrary: out d)
  case Nil
  then show ?case by simp
next
  case (Cons b bs)
  show ?case
    using Cons.IH [of "out @ fst (utf8_handler d b)" "snd (utf8_handler d b)"]
          Cons.IH [of "fst (utf8_handler d b)" "snd (utf8_handler d b)"]
    by simp
qed

lemma utf8_run_append:
  "utf8_run out d (a @ b) = utf8_run (fst (utf8_run out d a)) (snd (utf8_run out d a)) b"
  by (induction a arbitrary: out d) auto

lemma lowerOk_reset: "lowerOk utf8_reset"
  by (simp add: lowerOk_def utf8_reset_def)

lemma lowerOk_lead: "lowerOk (snd (utf8_lead b))"
  by (simp add: utf8_lead_def lowerOk_def utf8_reset_def)

lemma lowerOk_handler: "lowerOk (snd (utf8_handler d b))"
  by (simp add: utf8_handler_def lowerOk_lead Let_def) (simp add: lowerOk_def utf8_reset_def)

lemma lowerOk_run: "lowerOk d \<Longrightarrow> lowerOk (snd (utf8_run out d bs))"
  by (induction bs arbitrary: out d) (auto simp: lowerOk_handler)

lemma utf8_lead_newline: "utf8_lead 10 = ([10], utf8_reset)"
  by (simp add: utf8_lead_def)

lemma utf8_handler_newline:
  "lowerOk d \<Longrightarrow>
   utf8_handler d 10 = ((if bytesNeeded d = 0 then [10] else [0xFFFD, 10]), utf8_reset)"
  unfolding lowerOk_def utf8_handler_def utf8_lead_newline
  by (auto simp: word_le_def word_less_def not_le dest: order_trans) 


lemma stripBOM_append:
  "stripBOM seen (x @ y) =
     (fst (stripBOM seen x) @ fst (stripBOM (snd (stripBOM seen x)) y),
      snd (stripBOM (snd (stripBOM seen x)) y))"
  by (cases x) (auto simp: stripBOM_def split: list.splits)

lemma decode_fst:
  "fst (decode td bs) =
     concat (map utf16 (fst (stripBOM (bomSeen td) (fst (utf8_run [] (utf8 td) bs)))))"
  by (simp add: decode_def split: prod.splits)

lemma decode_snd:
  "snd (decode td bs) =
     \<lparr>utf8 = snd (utf8_run [] (utf8 td) bs),
      bomSeen = snd (stripBOM (bomSeen td) (fst (utf8_run [] (utf8 td) bs)))\<rparr>"
  by (simp add: decode_def split: prod.splits)

lemma decode_Nil: "decode td [] = ([], td)"
  by (simp add: decode_def stripBOM_def)

lemma utf8_run_append_fst:
  "fst (utf8_run [] d (a @ b)) =
     fst (utf8_run [] d a) @ fst (utf8_run [] (snd (utf8_run [] d a)) b)"
  by (metis fst_conv utf8_run_append utf8_run_out)

lemma utf8_run_append_snd:
  "snd (utf8_run [] d (a @ b)) = snd (utf8_run [] (snd (utf8_run [] d a)) b)"
  by (metis snd_conv utf8_run_append utf8_run_out)

lemma decode_append:
  "decode td (a @ b) =
     (fst (decode td a) @ fst (decode (snd (decode td a)) b), snd (decode (snd (decode td a)) b))"
  by (simp add: prod_eq_iff decode_fst decode_snd utf8_run_append_fst utf8_run_append_snd
        stripBOM_append)

lemma decoderOk_new: "decoderOk newTextDecoder"
  by (simp add: decoderOk_def newTextDecoder_def lowerOk_reset)

lemma decoderOk_lineStart: "decoderOk lineStart"
  by (simp add: decoderOk_def lineStart_def lowerOk_reset)

lemma decoderOk_decode: "decoderOk td \<Longrightarrow> decoderOk (snd (decode td bs))"
  by (simp add: decoderOk_def decode_snd lowerOk_run)

lemma stripBOM_newline_end:
  "\<exists>t. stripBOM seen (x @ [10]) = (t @ [10], True)"
  by (cases x) (auto simp: stripBOM_def)

lemma utf8_run_newline_end:
  assumes "lowerOk d"
  shows "\<exists>t. utf8_run [] d (x @ [10]) = (t @ [10], utf8_reset)"
proof -
  let ?r = "utf8_run [] d x"
  have ok: "lowerOk (snd ?r)" using assms by (rule lowerOk_run)
  have "utf8_run [] d (x @ [10]) = utf8_run (fst ?r) (snd ?r) [10]"
    by (rule utf8_run_append)
  also have "\<dots> = (fst ?r @ (if bytesNeeded (snd ?r) = 0 then [10] else [0xFFFD, 10]), utf8_reset)"
    by (simp add: utf8_handler_newline [OF ok])
  finally show ?thesis
    by (cases "bytesNeeded (snd ?r) = 0") (auto intro: exI [of _ "fst ?r @ [0xFFFD]"])
qed

lemma utf16_newline: "utf16 10 = [10]"
  by (simp add: utf16_def)

lemma decode_newline_end:
  assumes "decoderOk td"
  shows "\<exists>t. decode td (x @ [10]) = (t @ [10], lineStart)"
proof -
  from assms obtain cps where run: "utf8_run [] (utf8 td) (x @ [10]) = (cps @ [10], utf8_reset)"
    using utf8_run_newline_end [of "utf8 td" x] by (auto simp: decoderOk_def)
  obtain cps' where strip: "stripBOM (bomSeen td) (cps @ [10]) = (cps' @ [10], True)"
    using stripBOM_newline_end [of "bomSeen td" cps] by auto
  have "decode td (x @ [10]) = (concat (map utf16 cps') @ [10], lineStart)"
    by (simp add: decode_def run strip utf16_newline lineStart_def)
  then show ?thesis by blast
qed

lemma readLoop_enqueued: "readLoop B p td ev cs = ev @ readLoop B p td [] cs"
proof (induction cs arbitrary: td ev)
  case Nil
  then show ?case by simp
next
  case (Cons c cs)
  show ?case
    using Cons.IH [of "snd (decode td c)" "ev @ processChunk B p (fst (decode td c))"]
          Cons.IH [of "snd (decode td c)" "processChunk B p (fst (decode td c))"]
    by simp
qed

lemma processChunk_decode_append:
  assumes "decoderOk td" and "c = [] \<or> last c = 10"
  shows "processChunk B p (fst (decode td (c @ r))) =
           processChunk B p (fst (decode td c)) @
           processChunk B p (fst (decode (snd (decode td c)) r))"
proof (cases "c = []")
  case True
  then show ?thesis by (simp add: decode_Nil processChunk_Nil)
next
  case False
  with assms(2) obtain x where c: "c = x @ [10]"
    by (metis append_butlast_last_id)
  from decode_newline_end [OF assms(1), of x] obtain t where
    d: "decode td (x @ [10]) = (t @ [10], lineStart)" by blast
  have e: "fst (decode td (x @ 10 # r)) = t @ 10 # fst (decode lineStart r)"
    using decode_append [of td "x @ [10]" r] by (simp add: d)
  show ?thesis
    unfolding c by (simp add: e d processChunk_append_newline processChunk_Nil)
qed

lemma readLoop_one_chunk:
  assumes "decoderOk td" and "\<forall>c\<in>set (butlast cs). c = [] \<or> last c = 10"
  shows "readLoop B p td ev cs = readLoop B p td ev [concat cs]"
  using assms
proof (induction cs arbitrary: td ev)
  case Nil
  then show ?case by (simp add: decode_Nil processChunk_Nil)
next
  case (Cons c cs)
  show ?case
  proof (cases "cs = []")
    case True
    then show ?thesis by simp
  next
    case False
    with Cons.prems(2) have c: "c = [] \<or> last c = 10"
      and rest: "\<forall>c\<in>set (butlast cs). c = [] \<or> last c = 10" by auto
    have ok: "decoderOk (snd (decode td c))"
      using Cons.prems(1) by (rule decoderOk_decode)
    have "readLoop B p td ev (c # cs) =
            readLoop B p (snd (decode td c)) (ev @ processChunk B p (fst (decode td c))) [concat cs]"
      using Cons.IH [OF ok rest] by simp
    also have "\<dots> = ev @ processChunk B p (fst (decode td c)) @
                       processChunk B p (fst (decode (snd (decode td c)) (concat cs)))"
      by simp
    also have "\<dots> = ev @ processChunk B p (fst (decode td (c @ concat cs)))"
      using processChunk_decode_append [OF Cons.prems(1) c] by simp
    finally show ?thesis by simp
  qed
qed

subsection \<open>The all-settled join\<close>

lemma fanIn_values: "fanIn w d t = Inr (settledValue w, settledValue d, settledValue t)"
  by (cases w; cases d; cases t)
     (simp_all add: fanIn_def takeResult_def pushPromise_def settledValue_def)

text \<open>
  \<^bold>\<open>Claim C10.\<close> For every subset of the three provider calls that the orchestrator
  starts, and however each started promise settles, the index-based read-out after the
  all-settled join never reads past the results and gives each source its own outcome:
  the fulfilled value of that source's promise, \<^verbatim>\<open>null\<close> when the call was not started
  or the promise rejected. The fields \<^verbatim>\<open>webSearchResults\<close>, \<^verbatim>\<open>doubanData\<close> and
  \<^verbatim>\<open>tmdbData\<close> of every object the orchestrator returns are these values for the
  promises it started.
\<close>

theorem fanIn_demultiplexes:
  "fanIn w d t = Inr (settledValue w, settledValue d, settledValue t) \<and>
   (ended (orchestrateDataSources B W msg ctx cfg) = Inr (secs, r) \<longrightarrow>
      webSearchResults r =
        settledValue (startWebSearch W msg cfg
                        (resolveIntent B msg ctx (snd (decide W msg ctx cfg)))) \<and>
      doubanData r =
        settledValue (startDouban W ctx
                        (resolveIntent B msg ctx (snd (decide W msg ctx cfg)))) \<and>
      tmdbData r =
        settledValue (startTMDB W ctx cfg
                        (resolveIntent B msg ctx (snd (decide W msg ctx cfg)))))"
proof -
  have "ended (orchestrateDataSources B W msg ctx cfg) = Inr (secs, r) \<longrightarrow>
      webSearchResults r =
        settledValue (startWebSearch W msg cfg
                        (resolveIntent B msg ctx (snd (decide W msg ctx cfg)))) \<and>
      doubanData r =
        settledValue (startDouban W ctx
                        (resolveIntent B msg ctx (snd (decide W msg ctx cfg)))) \<and>
      tmdbData r =
        settledValue (startTMDB W ctx cfg
                        (resolveIntent B msg ctx (snd (decide W msg ctx cfg))))"
    by (auto simp add: orchestrateDataSources_def Let_def fanIn_values split: sum.splits)
  with fanIn_values [of w d t] show ?thesis by blast
qed

text \<open>
  The witness: with a title, a TMDB id and all keys configured, the season-two question
  starts all three calls; web search and Douban answer, TMDB times out.
\<close>

theorem fanIn_demultiplexes_witness:
  "\<exists>secs r.
     ended (orchestrateDataSources sampleBuiltins tmdbTimesOut msgWhenSeasonTwo
              (Some richContext) (Some allKeysConfig)) = Inr (secs, r) \<and>
     webSearchResults r = JObj [(ascii ''results'', JArr [])] \<and>
     doubanData r = JObj [(ascii ''title'', JStr (ascii ''Dark''))] \<and>
     tmdbData r = JNull"
proof -
  have "\<exists>secs r. ended (orchestrateDataSources sampleBuiltins tmdbTimesOut msgWhenSeasonTwo
              (Some richContext) (Some allKeysConfig)) = Inr (secs, r)"
    by (simp add: orchestrateDataSources_def fanIn_values settledValue_def
          scenario_defs intent_defs start_defs prompt_defs tmdbTimesOut_def)
  then obtain secs r where e:
    "ended (orchestrateDataSources sampleBuiltins tmdbTimesOut msgWhenSeasonTwo
              (Some richContext) (Some allKeysConfig)) = Inr (secs, r)" by blast
  from fanIn_demultiplexes [of None None None sampleBuiltins tmdbTimesOut msgWhenSeasonTwo
         "Some richContext" "Some allKeysConfig" secs r] e
  have "webSearchResults r = JObj [(ascii ''results'', JArr [])] \<and>
        doubanData r = JObj [(ascii ''title'', JStr (ascii ''Dark''))] \<and>
        tmdbData r = JNull"
    by (simp add: settledValue_def scenario_defs intent_defs start_defs tmdbTimesOut_def)
  with e show ?thesis by blast
qed

subsection \<open>The stream transformer\<close>

lemmas stream_defs =
  decode_def newTextDecoder_def lineStart_def utf8_handler_def utf8_lead_def utf8_reset_def
  stripBOM_def utf16_def asciiBytes_def ascii_def chunkLines_def trim_def isWhiteSpace_def
  processChunk_def processLine_def extractText_def orEmpty_def dataLine_def

lemmas sample_stream_defs = sampleBuiltins_def sampleParse_def openaiDelta_def deltaJson_def

lemma readLoop_events:
  "readLoop B p td ev cs = ev @ concat (map (processChunk B p) (decodeChunks td cs))"
  by (induction cs arbitrary: td ev) auto

lemma count_processLine:
  "count_list (processLine B p l) DoneEvent = (if isDoneLine l then 1 else 0)"
proof -
  have "ascii ''[DONE]'' \<noteq> []" by (simp add: ascii_def)
  then show ?thesis
    by (auto simp: processLine_def isDoneLine_def Let_def split: option.splits)
qed

lemma count_list_concat_map:
  "count_list (concat (map f xs)) y = sum_list (map (\<lambda>x. count_list (f x) y) xs)"
  by (induction xs) auto

lemma sum_list_indicator:
  "sum_list (map (\<lambda>x. if P x then 1 else 0) xs) = length (filter P xs)"
  by (induction xs) auto

lemma count_processChunk:
  "count_list (processChunk B p t) DoneEvent = length (filter isDoneLine (chunkLines t))"
  by (simp add: processChunk_def count_list_concat_map count_processLine sum_list_indicator)

lemma count_chunks:
  "count_list (concat (map (processChunk B p) ts)) DoneEvent =
     length (filter isDoneLine (concat (map chunkLines ts)))"
  by (induction ts) (auto simp: count_processChunk)

lemma hello_lines:
  "chunkLines (fst (decode newTextDecoder helloStream)) =
     [eventLine (openaiDelta ''Hel''), eventLine (openaiDelta ''lo''),
      eventLine (openaiDelta '' world''), eventLine ''[DONE]'']"
  by (simp add: helloStream_def stream_defs openaiDelta_def eventLine_def)

lemmas line_defs =
  processLine_def eventLine_def ascii_def openaiDelta_def deltaJson_def trim_def
  isWhiteSpace_def extractText_def orEmpty_def

lemma sentinel_line: "processLine B p (eventLine ''[DONE]'') = [DoneEvent]"
  by (simp add: line_defs)

lemma hel_line:
  assumes "jsonParse B (ascii (openaiDelta ''Hel'')) = Some (deltaJson ''Hel'')"
  shows "processLine B OpenAI (eventLine (openaiDelta ''Hel'')) = [TextEvent (JStr (ascii ''Hel''))]"
  using assms by (simp add: line_defs)

lemma lo_line:
  assumes "jsonParse B (ascii (openaiDelta ''lo'')) = Some (deltaJson ''lo'')"
  shows "processLine B OpenAI (eventLine (openaiDelta ''lo'')) = [TextEvent (JStr (ascii ''lo''))]"
  using assms by (simp add: line_defs)

lemma world_line:
  assumes "jsonParse B (ascii (openaiDelta '' world'')) = Some (deltaJson '' world'')"
  shows "processLine B OpenAI (eventLine (openaiDelta '' world'')) =
           [TextEvent (JStr (ascii '' world''))]"
  using assms by (simp add: line_defs)

lemma decoderOk_after: "decoderOk td \<Longrightarrow> decoderOk (decoderAfter td cs)"
  unfolding decoderAfter_def
  by (induction cs arbitrary: td) (auto simp: decoderOk_decode)

lemma readLoop_append:
  "readLoop B p td ev (xs @ ys) = readLoop B p (decoderAfter td xs) (readLoop B p td ev xs) ys"
  unfolding decoderAfter_def
  by (induction xs arbitrary: td ev) auto

lemma decode_line:
  "decode lineStart (bytes @ [10]) = (lineText bytes @ [10], lineStart)"
proof -
  from decode_newline_end [OF decoderOk_lineStart, of bytes] obtain t where
    "decode lineStart (bytes @ [10]) = (t @ [10], lineStart)" by blast
  then show ?thesis by (simp add: lineText_def)
qed

lemma decode_around_line:
  assumes "decoderOk td"
  shows "\<exists>ta. fst (decode td (a @ [10] @ line @ [10] @ c)) =
                 ta @ [10] @ lineText line @ [10] @ fst (decode lineStart c) \<and>
              snd (decode td (a @ [10] @ line @ [10] @ c)) = snd (decode lineStart c) \<and>
              fst (decode td (a @ [10] @ c)) = ta @ [10] @ fst (decode lineStart c) \<and>
              snd (decode td (a @ [10] @ c)) = snd (decode lineStart c)"
proof -
  from decode_newline_end [OF assms, of a] obtain ta where
    a: "decode td (a @ [10]) = (ta @ [10], lineStart)" by blast
  have 1: "decode td ((a @ [10]) @ r) = (ta @ [10] @ fst (decode lineStart r), snd (decode lineStart r))"
    for r
    using decode_append [of td "a @ [10]" r] a by simp
  have 2: "decode lineStart ((line @ [10]) @ c) =
             (lineText line @ [10] @ fst (decode lineStart c), snd (decode lineStart c))"
    using decode_append [of lineStart "line @ [10]" c] decode_line [of line] by simp
  have "fst (decode td (a @ [10] @ line @ [10] @ c)) =
          ta @ [10] @ lineText line @ [10] @ fst (decode lineStart c)"
    using 1 [of "(line @ [10]) @ c"] 2 by simp
  moreover have "snd (decode td (a @ [10] @ line @ [10] @ c)) = snd (decode lineStart c)"
    using 1 [of "(line @ [10]) @ c"] 2 by simp
  moreover have "fst (decode td (a @ [10] @ c)) = ta @ [10] @ fst (decode lineStart c)"
    using 1 [of c] by simp
  moreover have "snd (decode td (a @ [10] @ c)) = snd (decode lineStart c)"
    using 1 [of c] by simp
  ultimately show ?thesis by blast
qed

lemma corrupted_line_silent:
  assumes "startsWith line (ascii ''data: '')"
    and "trim (drop 6 line) \<noteq> ascii ''[DONE]''"
    and "jsonParse B (trim (drop 6 line)) = None"
  shows "processLine B p line = []"
  using assms by (simp add: processLine_def Let_def)

text \<open>
  \<^bold>\<open>Claim C5.\<close> The synthetic OpenAI-compatible stream with the deltas \<^verbatim>\<open>Hel\<close>,
  \<^verbatim>\<open>lo\<close>, \<^verbatim>\<open> world\<close> and the line \<^verbatim>\<open>data: [DONE]\<close>, delivered whole or in chunks that
  end at line ends, yields exactly the three text events in that order and then one
  sentinel event; the output stream closes. \<^verbatim>\<open>JSON.parse\<close> is only assumed to parse
  the three payloads to the values they denote.
\<close>

theorem stream_fidelity:
  assumes "jsonParse B (ascii (openaiDelta ''Hel'')) = Some (deltaJson ''Hel'')"
    and "jsonParse B (ascii (openaiDelta ''lo'')) = Some (deltaJson ''lo'')"
    and "jsonParse B (ascii (openaiDelta '' world'')) = Some (deltaJson '' world'')"
    and "concat chunks = helloStream"
    and "\<forall>c\<in>set (butlast chunks). c = [] \<or> last c = 10"
  shows "transformToSSE B OpenAI (chunks, UpstreamDone) =
           ([TextEvent (JStr (ascii ''Hel'')), TextEvent (JStr (ascii ''lo'')),
             TextEvent (JStr (ascii '' world'')), DoneEvent], OutClosed)"
proof -
  have "readLoop B OpenAI newTextDecoder [] chunks =
          readLoop B OpenAI newTextDecoder [] [helloStream]"
    using readLoop_one_chunk [OF decoderOk_new assms(5)] assms(4) by simp
  also have "\<dots> = [TextEvent (JStr (ascii ''Hel'')), TextEvent (JStr (ascii ''lo'')),
                    TextEvent (JStr (ascii '' world'')), DoneEvent]"
    by (simp add: processChunk_def hello_lines sentinel_line
          hel_line [OF assms(1)] lo_line [OF assms(2)] world_line [OF assms(3)])
  finally show ?thesis by (simp add: transformToSSE_def)
qed

text \<open>The witness: the stream in three chunks, the second holding two events.\<close>

theorem stream_fidelity_witness:
  "transformToSSE sampleBuiltins OpenAI
     ([dataLine (openaiDelta ''Hel''), dataLine (openaiDelta ''lo'') @ dataLine (openaiDelta '' world''),
       dataLine ''[DONE]''], UpstreamDone) =
   ([TextEvent (JStr (ascii ''Hel'')), TextEvent (JStr (ascii ''lo'')),
     TextEvent (JStr (ascii '' world'')), DoneEvent], OutClosed)"
proof -
  have c: "concat [dataLine (openaiDelta ''Hel''),
              dataLine (openaiDelta ''lo'') @ dataLine (openaiDelta '' world''),
              dataLine ''[DONE]''] = helloStream"
    by (simp add: helloStream_def)
  have b: "\<forall>c\<in>set (butlast [dataLine (openaiDelta ''Hel''),
              dataLine (openaiDelta ''lo'') @ dataLine (openaiDelta '' world''),
              dataLine ''[DONE]'']). c = [] \<or> last c = 10"
    by (simp add: dataLine_def)
  have p1: "jsonParse sampleBuiltins (ascii (openaiDelta ''Hel'')) = Some (deltaJson ''Hel'')"
    and p2: "jsonParse sampleBuiltins (ascii (openaiDelta ''lo'')) = Some (deltaJson ''lo'')"
    and p3: "jsonParse sampleBuiltins (ascii (openaiDelta '' world'')) = Some (deltaJson '' world'')"
    by (simp_all add: sample_stream_defs ascii_def)
  show ?thesis by (rule stream_fidelity [OF p1 p2 p3 c b])
qed


text \<open>
  \<^bold>\<open>Claim C6, as the code has it.\<close> The transformer emits one sentinel event for each
  line carrying \<^verbatim>\<open>[DONE]\<close> that it observes, and none of its own when the upstream
  closes: the number of sentinel events is the number of sentinel lines.
\<close>

theorem sentinel_per_done_line:
  "count_list (fst (transformToSSE B p upstream)) DoneEvent =
     length (filter isDoneLine (observedLines (fst upstream)))"
  by (simp add: transformToSSE_def readLoop_events observedLines_def count_chunks)

text \<open>
  The claim as stated fails: an upstream that closes without the sentinel line gets
  no sentinel event.
\<close>

theorem no_sentinel_on_close:
  "fst (transformToSSE sampleBuiltins OpenAI ([dataLine (openaiDelta ''Hel'')], UpstreamDone)) =
     [TextEvent (JStr (ascii ''Hel''))] \<and>
   DoneEvent \<notin> set (fst (transformToSSE sampleBuiltins OpenAI
                            ([dataLine (openaiDelta ''Hel'')], UpstreamDone)))"
  by (simp add: transformToSSE_def stream_defs sample_stream_defs)

text \<open>
  \<^bold>\<open>Claim C7, as the code has it.\<close> The transformer keeps a partial multi-byte
  sequence between reads and no partial line. Its output is the same under every
  partition of the bytes whose boundaries fall right after a line feed.
\<close>

theorem chunking_at_newlines:
  assumes "\<forall>c\<in>set (butlast chunks). c = [] \<or> last c = 10"
  shows "transformToSSE B p (chunks, e) = transformToSSE B p ([concat chunks], e)"
  using readLoop_one_chunk [OF decoderOk_new assms] by (simp add: transformToSSE_def)

theorem chunking_at_newlines_witness:
  "transformToSSE sampleBuiltins OpenAI
     ([dataLine (openaiDelta ''Hel''), dataLine ''[DONE]''], UpstreamDone) =
     ([TextEvent (JStr (ascii ''Hel'')), DoneEvent], OutClosed) \<and>
   transformToSSE sampleBuiltins OpenAI
     ([dataLine (openaiDelta ''Hel'') @ dataLine ''[DONE]''], UpstreamDone) =
     ([TextEvent (JStr (ascii ''Hel'')), DoneEvent], OutClosed)"
proof -
  have h: "\<forall>c\<in>set (butlast [dataLine (openaiDelta ''Hel''), dataLine ''[DONE]'']).
             c = [] \<or> last c = 10"
    by (simp add: dataLine_def)
  have "transformToSSE sampleBuiltins OpenAI
          ([dataLine (openaiDelta ''Hel'') @ dataLine ''[DONE]''], UpstreamDone) =
        ([TextEvent (JStr (ascii ''Hel'')), DoneEvent], OutClosed)"
    by (simp add: transformToSSE_def stream_defs sample_stream_defs)
  with chunking_at_newlines [OF h, of sampleBuiltins OpenAI UpstreamDone]
  show ?thesis by simp
qed

text \<open>
  The claim as stated fails: a delta line cut inside its payload yields no event, the
  same line in one chunk yields its text event.
\<close>

theorem split_line_is_lost:
  "splitHead @ splitTail = dataLine (openaiDelta ''Hel'') \<and>
   transformToSSE sampleBuiltins OpenAI ([splitHead, splitTail], UpstreamDone) = ([], OutClosed) \<and>
   transformToSSE sampleBuiltins OpenAI ([splitHead @ splitTail], UpstreamDone) =
     ([TextEvent (JStr (ascii ''Hel''))], OutClosed)"
  by (simp add: transformToSSE_def stream_defs sample_stream_defs splitHead_def splitTail_def)

text \<open>
  \<^bold>\<open>Claim C9.\<close> A line that starts with \<^verbatim>\<open>data: \<close>, has a non-empty payload that is
  not the sentinel and that \<^verbatim>\<open>JSON.parse\<close> rejects, put between two line feeds of a
  chunk, changes nothing: the events and the end of the output stream are those of the
  upstream without that line.
\<close>

theorem malformed_line_resilience:
  assumes "10 \<notin> set (lineText bad)"
    and "startsWith (lineText bad) (ascii ''data: '')"
    and "trim (drop 6 (lineText bad)) \<noteq> []"
    and "trim (drop 6 (lineText bad)) \<noteq> ascii ''[DONE]''"
    and "jsonParse B (trim (drop 6 (lineText bad))) = None"
  shows "transformToSSE B p (before @ [a @ [10] @ bad @ [10] @ c] @ after, e) =
         transformToSSE B p (before @ [a @ [10] @ c] @ after, e)"
proof -
  let ?td = "decoderAfter newTextDecoder before"
  have ok: "decoderOk ?td" by (rule decoderOk_after [OF decoderOk_new])
  from decode_around_line [OF ok, of a bad c] obtain ta where
    f1: "fst (decode ?td (a @ [10] @ bad @ [10] @ c)) =
           ta @ [10] @ lineText bad @ [10] @ fst (decode lineStart c)"
    and s1: "snd (decode ?td (a @ [10] @ bad @ [10] @ c)) = snd (decode lineStart c)"
    and f2: "fst (decode ?td (a @ [10] @ c)) = ta @ [10] @ fst (decode lineStart c)"
    and s2: "snd (decode ?td (a @ [10] @ c)) = snd (decode lineStart c)"
    by blast
  have silent: "processChunk B p (lineText bad) = []"
    using assms by (simp add: processChunk_line corrupted_line_silent)
  have same: "processChunk B p (fst (decode ?td (a @ [10] @ bad @ [10] @ c))) =
              processChunk B p (fst (decode ?td (a @ [10] @ c)))"
    using f1 f2 by (simp add: processChunk_append_newline silent)
  have "readLoop B p newTextDecoder [] (before @ [a @ [10] @ bad @ [10] @ c] @ after) =
        readLoop B p newTextDecoder [] (before @ [a @ [10] @ c] @ after)"
    using same s1 s2 by (simp add: readLoop_append [of B p newTextDecoder "[]" before])
  then show ?thesis by (simp add: transformToSSE_def)
qed

text \<open>The witness: a truncated delta between two valid ones.\<close>

theorem malformed_line_resilience_witness:
  "transformToSSE sampleBuiltins OpenAI
     ([asciiBytes (''data: '' @ openaiDelta ''Hel'') @ [10] @ brokenLine @ [10] @
       dataLine (openaiDelta ''lo'')], UpstreamDone) =
   ([TextEvent (JStr (ascii ''Hel'')), TextEvent (JStr (ascii ''lo''))], OutClosed)"
proof -
  have t: "lineText brokenLine = ascii ''data: {\"choices\":[{\"delta\":''"
    by (simp add: lineText_def brokenLine_def stream_defs)
  have h1: "10 \<notin> set (lineText brokenLine)"
    and h2: "startsWith (lineText brokenLine) (ascii ''data: '')"
    and h3: "trim (drop 6 (lineText brokenLine)) \<noteq> []"
    and h4: "trim (drop 6 (lineText brokenLine)) \<noteq> ascii ''[DONE]''"
    and h5: "jsonParse sampleBuiltins (trim (drop 6 (lineText brokenLine))) = None"
    unfolding t
    by (simp_all add: ascii_def trim_def isWhiteSpace_def sample_stream_defs)
  have "transformToSSE sampleBuiltins OpenAI
          ([] @ [asciiBytes (''data: '' @ openaiDelta ''Hel'') @ [10] @
                 dataLine (openaiDelta ''lo'')] @ [], UpstreamDone) =
        ([TextEvent (JStr (ascii ''Hel'')), TextEvent (JStr (ascii ''lo''))], OutClosed)"
    by (simp add: transformToSSE_def stream_defs sample_stream_defs)
  with malformed_line_resilience [OF h1 h2 h3 h4 h5, of OpenAI "[]"
         "asciiBytes (''data: '' @ openaiDelta ''Hel'')" "dataLine (openaiDelta ''lo'')" "[]"
         UpstreamDone]
  show ?thesis by simp
qed

subsection \<open>Which calls the orchestrator issues\<close>

lemmas call_kinds = isDecisionCall_def isWebSearchCall_def isDoubanCall_def isTMDBCall_def

lemma decide_calls:
  "r \<in> set (fst (decide W msg ctx cfg)) \<Longrightarrow>
     isDecisionCall r \<and> (\<exists>c. cfg = Some c \<and> availabilityOf r = availableDataSources c)"
  by (auto simp: decide_def callDecisionModel_def call_def isDecisionCall_def availabilityOf_def
           split: option.splits bool.splits if_splits)

lemma web_calls:
  "r \<in> set (promiseCalls (startWebSearch W msg cfg ri)) \<Longrightarrow> isWebSearchCall r"
  by (auto simp: startWebSearch_def promiseCalls_def async_def fetchWebSearch_def call_def
           isWebSearchCall_def split: option.splits if_splits)

lemma douban_calls:
  "r \<in> set (promiseCalls (startDouban W ctx ri)) \<Longrightarrow> isDoubanCall r"
  by (auto simp: startDouban_def promiseCalls_def async_def fetchDoubanData_def
           fetchDoubanHot_def fetchDoubanSearch_def call_def isDoubanCall_def
           split: option.splits if_splits)

lemma tmdb_calls:
  "r \<in> set (promiseCalls (startTMDB W ctx cfg ri)) \<Longrightarrow> isTMDBCall r"
  by (auto simp: startTMDB_def promiseCalls_def async_def fetchTMDBData_def call_def
           isTMDBCall_def split: option.splits if_splits)

lemma web_not_configured:
  "\<not> webSearchConfigured cfg \<Longrightarrow> startWebSearch W msg cfg ri = None"
  by (auto simp: webSearchConfigured_def startWebSearch_def hasWebSearchProvider_def
           webSearchKey_def strTruthy_def split: option.splits search_provider.splits)

lemma web_configured:
  "webSearchConfigured cfg \<Longrightarrow> needWebSearch (intent ri) \<Longrightarrow>
   encodable (valueOr (optimizedWebSearchQuery ri) (JStr msg)) \<Longrightarrow>
     \<exists>r. isWebSearchCall r \<and> promiseCalls (startWebSearch W msg cfg ri) = [r]"
  by (auto simp: webSearchConfigured_def startWebSearch_def hasWebSearchProvider_def
           webSearchKey_def strTruthy_def promiseCalls_def async_def fetchWebSearch_def call_def
           isWebSearchCall_def split: option.splits search_provider.splits)

lemma tmdb_not_configured:
  "\<not> tmdbConfigured cfg \<Longrightarrow> promiseCalls (startTMDB W ctx cfg ri) = []"
  by (auto simp: tmdbConfigured_def startTMDB_def hasTMDB_def strTruthy_def promiseCalls_def
           async_def fetchTMDBData_def split: option.splits)

lemma issued_eq:
  "issued (orchestrateDataSources B W msg ctx cfg) =
     fst (decide W msg ctx cfg) @
     promiseCalls (startWebSearch W msg cfg (resolveIntent B msg ctx (snd (decide W msg ctx cfg)))) @
     promiseCalls (startDouban W ctx (resolveIntent B msg ctx (snd (decide W msg ctx cfg)))) @
     promiseCalls (startTMDB W ctx cfg (resolveIntent B msg ctx (snd (decide W msg ctx cfg))))"
  by (simp add: orchestrateDataSources_def Let_def)

lemma kinds_disjoint:
  "isDecisionCall r \<Longrightarrow> \<not> isWebSearchCall r \<and> \<not> isDoubanCall r \<and> \<not> isTMDBCall r"
  "isWebSearchCall r \<Longrightarrow> \<not> isDoubanCall r \<and> \<not> isTMDBCall r"
  "isDoubanCall r \<Longrightarrow> \<not> isTMDBCall r"
  by (auto simp: call_kinds split: request.splits)

lemma issued_web:
  assumes "r \<in> set (issued (orchestrateDataSources B W msg ctx cfg))" and "isWebSearchCall r"
  shows "r \<in> set (promiseCalls (startWebSearch W msg cfg
                      (resolveIntent B msg ctx (snd (decide W msg ctx cfg)))))"
  using assms decide_calls [of r W msg ctx cfg] douban_calls [of r W ctx] tmdb_calls [of r W ctx cfg]
        kinds_disjoint [of r]
  unfolding issued_eq set_append Un_iff by blast

lemma issued_tmdb:
  assumes "r \<in> set (issued (orchestrateDataSources B W msg ctx cfg))" and "isTMDBCall r"
  shows "r \<in> set (promiseCalls (startTMDB W ctx cfg
                      (resolveIntent B msg ctx (snd (decide W msg ctx cfg)))))"
  using assms decide_calls [of r W msg ctx cfg] douban_calls [of r W ctx] web_calls [of r W msg cfg]
        kinds_disjoint [of r]
  unfolding issued_eq set_append Un_iff by blast

lemma issued_douban:
  assumes "r \<in> set (issued (orchestrateDataSources B W msg ctx cfg))" and "isDoubanCall r"
  shows "r \<in> set (promiseCalls (startDouban W ctx
                      (resolveIntent B msg ctx (snd (decide W msg ctx cfg)))))"
  using assms decide_calls [of r W msg ctx cfg] tmdb_calls [of r W ctx cfg] web_calls [of r W msg cfg]
        kinds_disjoint [of r]
  unfolding issued_eq set_append Un_iff by blast

lemma issued_decision:
  assumes "r \<in> set (issued (orchestrateDataSources B W msg ctx cfg))" and "isDecisionCall r"
  shows "r \<in> set (fst (decide W msg ctx cfg))"
  using assms douban_calls [of r W ctx] tmdb_calls [of r W ctx cfg] web_calls [of r W msg cfg]
        kinds_disjoint [of r]
  unfolding issued_eq set_append Un_iff by blast

text \<open>
  \<^bold>\<open>Claim C2.\<close> Whenever the orchestrator has called the decision model, a source that
  the availability map of that call marks unavailable (web search, TMDB) receives no
  request in the same run, whatever the decision model answers. For web search the
  start of the call is gated on the same configuration as the map; for TMDB
  \<^verbatim>\<open>fetchTMDBData\<close> is entered and returns before any request when the key is missing.
\<close>

theorem availability_override:
  assumes "r \<in> set (issued (orchestrateDataSources B W msg ctx cfg))" and "isDecisionCall r"
  shows "(\<not> avail_webSearch (availabilityOf r) \<longrightarrow>
            \<not> list_ex isWebSearchCall (issued (orchestrateDataSources B W msg ctx cfg))) \<and>
         (\<not> avail_tmdb (availabilityOf r) \<longrightarrow>
            \<not> list_ex isTMDBCall (issued (orchestrateDataSources B W msg ctx cfg)))"
proof -
  let ?ri = "resolveIntent B msg ctx (snd (decide W msg ctx cfg))"
  from assms have "r \<in> set (fst (decide W msg ctx cfg))" by (rule issued_decision)
  then obtain c where c: "cfg = Some c" "availabilityOf r = availableDataSources c"
    using decide_calls by blast
  have w: "\<not> list_ex isWebSearchCall (issued (orchestrateDataSources B W msg ctx cfg))"
    if "\<not> avail_webSearch (availabilityOf r)"
  proof -
    from that have "\<not> webSearchConfigured cfg"
      by (simp add: c availableDataSources_def webSearchConfigured_def)
    then have "promiseCalls (startWebSearch W msg cfg ?ri) = []"
      by (simp add: web_not_configured promiseCalls_def)
    then show ?thesis
      using issued_web [of _ B W msg ctx cfg] by (fastforce simp: list_ex_iff)
  qed
  have t: "\<not> list_ex isTMDBCall (issued (orchestrateDataSources B W msg ctx cfg))"
    if "\<not> avail_tmdb (availabilityOf r)"
  proof -
    from that have "\<not> tmdbConfigured cfg"
      by (simp add: c availableDataSources_def tmdbConfigured_def)
    then have "promiseCalls (startTMDB W ctx cfg ?ri) = []" by (rule tmdb_not_configured)
    then show ?thesis
      using issued_tmdb [of _ B W msg ctx cfg] by (fastforce simp: list_ex_iff)
  qed
  from w t show ?thesis by blast
qed

text \<open>
  The witness: a decision model that asks for web search and TMDB, with neither
  configured; the only request of the run is the one to the decision model.
\<close>

theorem availability_override_witness:
  "issued (orchestrateDataSources sampleBuiltins greedyDecision msgWhatIsItAbout
             (Some matrixContext) (Some decisionOnlyConfig)) =
     [DecisionRequest Custom (ascii ''sk-key'') None (ascii ''gpt-4o-mini'') msgWhatIsItAbout
        (Some matrixContext)
        \<lparr>avail_webSearch = False, avail_douban = True, avail_tmdb = False\<rparr>] \<and>
   needWebSearch (intent (resolveIntent sampleBuiltins msgWhatIsItAbout (Some matrixContext)
      (snd (decide greedyDecision msgWhatIsItAbout (Some matrixContext) (Some decisionOnlyConfig))))) \<and>
   needTMDB (intent (resolveIntent sampleBuiltins msgWhatIsItAbout (Some matrixContext)
      (snd (decide greedyDecision msgWhatIsItAbout (Some matrixContext) (Some decisionOnlyConfig))))) \<and>
   \<not> list_ex isWebSearchCall
       (issued (orchestrateDataSources sampleBuiltins greedyDecision msgWhatIsItAbout
                  (Some matrixContext) (Some decisionOnlyConfig))) \<and>
   \<not> list_ex isTMDBCall
       (issued (orchestrateDataSources sampleBuiltins greedyDecision msgWhatIsItAbout
                  (Some matrixContext) (Some decisionOnlyConfig)))"
proof -
  let ?r = "DecisionRequest Custom (ascii ''sk-key'') None (ascii ''gpt-4o-mini'') msgWhatIsItAbout
        (Some matrixContext)
        \<lparr>avail_webSearch = False, avail_douban = True, avail_tmdb = False\<rparr>"
  have i: "issued (orchestrateDataSources sampleBuiltins greedyDecision msgWhatIsItAbout
             (Some matrixContext) (Some decisionOnlyConfig)) = [?r]"
    by (simp add: issued_eq promiseCalls_def start_defs greedyDecision_def scenario_defs
          strTruthy_def numTruthy_def ctxTmdbId_def ctxType_def ctxDoubanId_def ctxTitle_def
          ascii_def)
  have n: "needWebSearch (intent (resolveIntent sampleBuiltins msgWhatIsItAbout (Some matrixContext)
      (snd (decide greedyDecision msgWhatIsItAbout (Some matrixContext) (Some decisionOnlyConfig)))))"
     "needTMDB (intent (resolveIntent sampleBuiltins msgWhatIsItAbout (Some matrixContext)
      (snd (decide greedyDecision msgWhatIsItAbout (Some matrixContext) (Some decisionOnlyConfig)))))"
    by (simp_all add: start_defs greedyDecision_def scenario_defs ascii_def)
  have m: "?r \<in> set (issued (orchestrateDataSources sampleBuiltins greedyDecision msgWhatIsItAbout
             (Some matrixContext) (Some decisionOnlyConfig)))"
    by (simp add: i)
  have d: "isDecisionCall ?r" by (simp add: isDecisionCall_def)
  from availability_override [OF m d] i n show ?thesis
    by (simp add: availabilityOf_def)
qed


subsection \<open>The two end-to-end scenarios\<close>

lemma resolve_classifier:
  "\<not> truthy d \<Longrightarrow> intent (resolveIntent B msg ctx d) = analyzeIntent B msg ctx"
  by (simp add: resolveIntent_def)

lemma resolve_classifier_queries:
  "\<not> truthy d \<Longrightarrow> optimizedWebSearchQuery (resolveIntent B msg ctx d) = None \<and>
                   optimizedDoubanQuery (resolveIntent B msg ctx d) = None"
  by (simp add: resolveIntent_def)

lemma seasonTwo_intent:
  assumes "title ctx = Some t" and "t \<noteq> []"
    and "toLowerCase B msgWhenSeasonTwo = msgWhenSeasonTwo"
  shows "needWebSearch (analyzeIntent B msgWhenSeasonTwo (Some ctx))"
    and "intent_type (analyzeIntent B msgWhenSeasonTwo (Some ctx)) = Detail"
  using assms by (simp_all add: intent_defs msgWhenSeasonTwo_def)

lemma whatAbout_intent:
  "intent_type (analyzeIntent B msgWhatIsItAbout (Some matrixContext)) = General"
  "needTMDB (analyzeIntent B msgWhatIsItAbout (Some matrixContext))"
  "\<not> needDouban (analyzeIntent B msgWhatIsItAbout (Some matrixContext))"
  "\<not> needWebSearch (analyzeIntent B msgWhatIsItAbout (Some matrixContext))"
  by (simp_all add: intent_defs msgWhatIsItAbout_def matrixContext_def noContext_def)

lemma web_call_iff:
  assumes "needWebSearch (intent (resolveIntent B msg ctx (snd (decide W msg ctx cfg))))"
    and "encodable (valueOr (optimizedWebSearchQuery
                       (resolveIntent B msg ctx (snd (decide W msg ctx cfg)))) (JStr msg))"
  shows "list_ex isWebSearchCall (issued (orchestrateDataSources B W msg ctx cfg)) \<longleftrightarrow>
           webSearchConfigured cfg"
proof
  assume "list_ex isWebSearchCall (issued (orchestrateDataSources B W msg ctx cfg))"
  then obtain r where "r \<in> set (issued (orchestrateDataSources B W msg ctx cfg))" "isWebSearchCall r"
    by (auto simp: list_ex_iff)
  then have "r \<in> set (promiseCalls (startWebSearch W msg cfg
                      (resolveIntent B msg ctx (snd (decide W msg ctx cfg)))))"
    by (rule issued_web)
  then have "startWebSearch W msg cfg
               (resolveIntent B msg ctx (snd (decide W msg ctx cfg))) \<noteq> None"
    by (cases "startWebSearch W msg cfg
                 (resolveIntent B msg ctx (snd (decide W msg ctx cfg)))")
       (simp_all add: promiseCalls_def)
  then show "webSearchConfigured cfg"
    by (metis web_not_configured)
next
  assume "webSearchConfigured cfg"
  from web_configured [OF this assms] obtain r where
    "isWebSearchCall r"
    "promiseCalls (startWebSearch W msg cfg
       (resolveIntent B msg ctx (snd (decide W msg ctx cfg)))) = [r]" by blast
  then show "list_ex isWebSearchCall (issued (orchestrateDataSources B W msg ctx cfg))"
    by (auto simp: issued_eq list_ex_iff)
qed

lemma webSection_null: "webSection B cfg JNull = []"
  by (simp add: webSection_def)

lemma doubanSection_kind: "doubanSection d = Inr s \<Longrightarrow> \<not> isWebSearchSection s"
  by (auto simp: doubanSection_def isWebSearchSection_def
           split: if_splits option.splits json.splits sum.splits)

lemma tmdbSection_kind: "tmdbSection d = Inr s \<Longrightarrow> \<not> isWebSearchSection s"
  by (auto simp: tmdbSection_def isWebSearchSection_def split: sum.splits)

lemma contextSection_kind: "s \<in> set (contextSection ctx) \<Longrightarrow> \<not> isWebSearchSection s"
  by (auto simp: contextSection_def isWebSearchSection_def split: option.splits if_splits)

lemma buildSections_Inr:
  assumes "buildSections B cfg ctx w d t = Inr secs"
  shows "\<exists>ds ts. secs = [Preamble] @ webSection B cfg w @ ds @ ts @ contextSection ctx @ [Closing] \<and>
           ((\<not> truthy d \<and> ds = []) \<or> (\<exists>s. truthy d \<and> doubanSection d = Inr s \<and> ds = [s])) \<and>
           ((\<not> truthy t \<and> ts = []) \<or> (\<exists>s. truthy t \<and> tmdbSection t = Inr s \<and> ts = [s]))"
  using assms
  by (cases "doubanSection d"; cases "tmdbSection t")
     (auto simp: buildSections_def split: if_splits)

lemma buildSections_no_web:
  assumes "buildSections B cfg ctx JNull d t = Inr secs"
  shows "\<not> list_ex isWebSearchSection secs"
proof -
  from buildSections_Inr [OF assms] obtain ds ts where
    secs: "secs = [Preamble] @ webSection B cfg JNull @ ds @ ts @ contextSection ctx @ [Closing]"
    and ds: "ds = [] \<or> (\<exists>s. doubanSection d = Inr s \<and> ds = [s])"
    and ts: "ts = [] \<or> (\<exists>s. tmdbSection t = Inr s \<and> ts = [s])"
    by blast
  have "\<not> list_ex isWebSearchSection ds"
    using ds doubanSection_kind by auto
  moreover have "\<not> list_ex isWebSearchSection ts"
    using ts tmdbSection_kind by auto
  moreover have "\<not> list_ex isWebSearchSection (contextSection ctx)"
    using contextSection_kind by (auto simp: list_ex_iff)
  ultimately show ?thesis
    by (simp add: secs webSection_null isWebSearchSection_def)
qed

lemma sections_no_web:
  assumes "\<not> webSearchConfigured cfg"
  shows "\<not> list_ex isWebSearchSection (sectionsOf (orchestrateDataSources B W msg ctx cfg))"
proof -
  have "startWebSearch W msg cfg (resolveIntent B msg ctx (snd (decide W msg ctx cfg))) = None"
    using assms by (rule web_not_configured)
  then show ?thesis
    using buildSections_no_web [of B cfg ctx]
    by (auto simp: sectionsOf_def orchestrateDataSources_def Let_def fanIn_values settledValue_def
             split: sum.splits)
qed

lemma douban_not_needed:
  "\<not> needDouban (intent ri) \<Longrightarrow> startDouban W ctx ri = None"
  by (simp add: startDouban_def)

lemma web_not_needed:
  "\<not> needWebSearch (intent ri) \<Longrightarrow> startWebSearch W msg cfg ri = None"
  by (simp add: startWebSearch_def split: option.splits)

lemma tmdb_started:
  assumes "needTMDB (intent ri)"
  shows "startTMDB W (Some matrixContext) cfg ri =
           Some (async (fetchTMDBData W (Some 603) (Some Movie)
                   (case cfg of None \<Rightarrow> None | Some c \<Rightarrow> tmdbApiKey c)
                   (case cfg of None \<Rightarrow> None | Some c \<Rightarrow> tmdbProxy c)))"
  using assms
  by (simp add: startTMDB_def matrixContext_def noContext_def numTruthy_def ctxTmdbId_def
        ctxType_def)

lemma tmdb_call_when_configured:
  "tmdbConfigured cfg \<Longrightarrow>
     \<exists>k. fst (fetchTMDBData W (Some 603) (Some Movie)
              (case cfg of None \<Rightarrow> None | Some c \<Rightarrow> tmdbApiKey c) p) = [TMDBRequest Movie 603 k]"
  by (auto simp: tmdbConfigured_def hasTMDB_def strTruthy_def fetchTMDBData_def call_def
           split: option.splits)

lemma tmdb_timeout_null:
  assumes "\<forall>k. W (TMDBRequest Movie 603 k) = Failed TimedOut"
  shows "snd (fetchTMDBData W (Some 603) (Some Movie) key p) = JNull"
  using assms by (simp add: fetchTMDBData_def call_def orNull_def split: option.splits)

text \<open>
  \<^bold>\<open>Claim C8, as the code has it.\<close> For the season-two question with a non-empty
  context title, on the intent classifier path (the decision model unused or failed):
  a time keyword is found, \<^verbatim>\<open>needWebSearch\<close> is true, and the type is \<^verbatim>\<open>detail\<close>, the
  rule for a titled context and a message containing \<^emph>\<open>zhe bu\<close> coming before the
  \<^verbatim>\<open>query\<close> rule; a web search request is issued exactly when web search is enabled
  with a provider and its key, and without them the prompt has no web search section.
  That \<^verbatim>\<open>toLowerCase\<close> leaves the message as it is (it has no cased letter) is assumed.
\<close>

theorem season_two_scenario:
  assumes "title ctx = Some t" and "t \<noteq> []"
    and "toLowerCase B msgWhenSeasonTwo = msgWhenSeasonTwo"
    and "\<not> truthy (snd (decide W msgWhenSeasonTwo (Some ctx) cfg))"
  shows "needWebSearch (analyzeIntent B msgWhenSeasonTwo (Some ctx)) \<and>
         intent_type (analyzeIntent B msgWhenSeasonTwo (Some ctx)) = Detail \<and>
         (list_ex isWebSearchCall
            (issued (orchestrateDataSources B W msgWhenSeasonTwo (Some ctx) cfg)) \<longleftrightarrow>
          webSearchConfigured cfg) \<and>
         (\<not> webSearchConfigured cfg \<longrightarrow>
            \<not> list_ex isWebSearchSection
                (sectionsOf (orchestrateDataSources B W msgWhenSeasonTwo (Some ctx) cfg)))"
proof -
  have "wellFormed msgWhenSeasonTwo"
    by (simp add: msgWhenSeasonTwo_def isHighSurrogate_def isLowSurrogate_def)
  then have "encodable (valueOr (optimizedWebSearchQuery
                (resolveIntent B msgWhenSeasonTwo (Some ctx)
                   (snd (decide W msgWhenSeasonTwo (Some ctx) cfg)))) (JStr msgWhenSeasonTwo))"
    using resolve_classifier_queries [OF assms(4), of B msgWhenSeasonTwo "Some ctx"]
    by (simp add: valueOr_def)
  then show ?thesis
    using seasonTwo_intent [OF assms(1,2,3)]
          web_call_iff [of B msgWhenSeasonTwo "Some ctx" W cfg]
          sections_no_web [of cfg B W msgWhenSeasonTwo "Some ctx"]
          resolve_classifier [OF assms(4), of B msgWhenSeasonTwo "Some ctx"]
    by simp
qed


text \<open>The witness: the titled context, once with all keys and once with none.\<close>

theorem season_two_scenario_witness:
  "needWebSearch (analyzeIntent sampleBuiltins msgWhenSeasonTwo (Some titledContext)) \<and>
   intent_type (analyzeIntent sampleBuiltins msgWhenSeasonTwo (Some titledContext)) = Detail \<and>
   list_ex isWebSearchCall
     (issued (orchestrateDataSources sampleBuiltins tmdbTimesOut msgWhenSeasonTwo
                (Some titledContext) (Some allKeysConfig))) \<and>
   \<not> list_ex isWebSearchCall
       (issued (orchestrateDataSources sampleBuiltins tmdbTimesOut msgWhenSeasonTwo
                  (Some titledContext) (Some noKeysConfig))) \<and>
   \<not> list_ex isWebSearchSection
       (sectionsOf (orchestrateDataSources sampleBuiltins tmdbTimesOut msgWhenSeasonTwo
                      (Some titledContext) (Some noKeysConfig)))"
proof -
  have t: "title titledContext = Some (ascii ''Dark'')" "ascii ''Dark'' \<noteq> []"
    by (simp_all add: scenario_defs ascii_def)
  have l: "toLowerCase sampleBuiltins msgWhenSeasonTwo = msgWhenSeasonTwo"
    by (simp add: scenario_defs)
  have d1: "\<not> truthy (snd (decide tmdbTimesOut msgWhenSeasonTwo (Some titledContext)
                              (Some allKeysConfig)))"
    and d2: "\<not> truthy (snd (decide tmdbTimesOut msgWhenSeasonTwo (Some titledContext)
                              (Some noKeysConfig)))"
    by (simp_all add: decide_def scenario_defs)
  have c1: "webSearchConfigured (Some allKeysConfig)"
    and c2: "\<not> webSearchConfigured (Some noKeysConfig)"
    by (simp_all add: webSearchConfigured_def hasWebSearchProvider_def strTruthy_def
          scenario_defs ascii_def)
  from season_two_scenario [OF t l d1] season_two_scenario [OF t l d2] c1 c2
  show ?thesis by simp
qed

text \<open>The claim as stated fails: the type is \<^verbatim>\<open>detail\<close>, not \<^verbatim>\<open>query\<close>.\<close>

theorem season_two_is_detail:
  "intent_type (analyzeIntent sampleBuiltins msgWhenSeasonTwo (Some titledContext)) = Detail \<and>
   intent_type (analyzeIntent sampleBuiltins msgWhenSeasonTwo (Some titledContext)) \<noteq> Query"
  by (simp add: intent_defs scenario_defs)

text \<open>
  \<^bold>\<open>Claim C4, as the code has it.\<close> For the question what the film is about with the
  context \<^verbatim>\<open>{tmdb_id: 603, type: "movie"}\<close> and nothing else, on the intent classifier
  path: the type is \<^verbatim>\<open>general\<close> (there is no title, so the \<^verbatim>\<open>detail\<close> rule does not
  apply), \<^verbatim>\<open>needTMDB\<close> is true and \<^verbatim>\<open>needDouban\<close> is false; no Douban request is
  issued; the TMDB request is issued exactly when a TMDB key is configured; and when
  that request times out the orchestrator still returns, with \<^verbatim>\<open>tmdbData\<close> \<^verbatim>\<open>null\<close> and
  a prompt of the preamble and the closing section.
\<close>

theorem matrix_scenario:
  assumes "\<not> truthy (snd (decide W msgWhatIsItAbout (Some matrixContext) cfg))"
  shows "intent_type (analyzeIntent B msgWhatIsItAbout (Some matrixContext)) = General \<and>
         needTMDB (analyzeIntent B msgWhatIsItAbout (Some matrixContext)) \<and>
         \<not> needDouban (analyzeIntent B msgWhatIsItAbout (Some matrixContext)) \<and>
         \<not> list_ex isDoubanCall
             (issued (orchestrateDataSources B W msgWhatIsItAbout (Some matrixContext) cfg)) \<and>
         (list_ex isTMDBCall
            (issued (orchestrateDataSources B W msgWhatIsItAbout (Some matrixContext) cfg)) \<longleftrightarrow>
          tmdbConfigured cfg) \<and>
         ((\<forall>k. W (TMDBRequest Movie 603 k) = Failed TimedOut) \<longrightarrow>
            ended (orchestrateDataSources B W msgWhatIsItAbout (Some matrixContext) cfg) =
              Inr ([Preamble, Closing],
                   \<lparr>systemPrompt = lit_preamble @ lit_closing, webSearchResults = JNull,
                    doubanData = JNull, tmdbData = JNull\<rparr>))"
proof -
  let ?ri = "resolveIntent B msgWhatIsItAbout (Some matrixContext)
               (snd (decide W msgWhatIsItAbout (Some matrixContext) cfg))"
  let ?run = "orchestrateDataSources B W msgWhatIsItAbout (Some matrixContext) cfg"
  let ?fetch = "fetchTMDBData W (Some 603) (Some Movie)
                   (case cfg of None \<Rightarrow> None | Some c \<Rightarrow> tmdbApiKey c)
                   (case cfg of None \<Rightarrow> None | Some c \<Rightarrow> tmdbProxy c)"
  have ri: "intent ?ri = analyzeIntent B msgWhatIsItAbout (Some matrixContext)"
    using assms by (rule resolve_classifier)
  have d: "startDouban W (Some matrixContext) ?ri = None"
    by (rule douban_not_needed) (simp add: ri whatAbout_intent)
  have w: "startWebSearch W msgWhatIsItAbout cfg ?ri = None"
    by (rule web_not_needed) (simp add: ri whatAbout_intent)
  have t: "startTMDB W (Some matrixContext) cfg ?ri = Some (async ?fetch)"
    by (rule tmdb_started) (simp add: ri whatAbout_intent)
  have nodouban: "\<not> list_ex isDoubanCall (issued ?run)"
    using issued_douban [of _ B W msgWhatIsItAbout "Some matrixContext" cfg]
    by (fastforce simp: list_ex_iff d promiseCalls_def)
  have tm: "list_ex isTMDBCall (issued ?run) \<longleftrightarrow> tmdbConfigured cfg"
  proof
    assume "list_ex isTMDBCall (issued ?run)"
    then obtain r where "r \<in> set (issued ?run)" "isTMDBCall r" by (auto simp: list_ex_iff)
    then have r: "r \<in> set (promiseCalls (startTMDB W (Some matrixContext) cfg ?ri))"
      by (rule issued_tmdb)
    show "tmdbConfigured cfg"
    proof (rule ccontr)
      assume "\<not> tmdbConfigured cfg"
      then have "promiseCalls (startTMDB W (Some matrixContext) cfg ?ri) = []"
        by (rule tmdb_not_configured)
      with r show False by simp
    qed
  next
    assume "tmdbConfigured cfg"
    from tmdb_call_when_configured [OF this, of W] obtain k where
      "fst ?fetch = [TMDBRequest Movie 603 k]" by blast
    then show "list_ex isTMDBCall (issued ?run)"
      by (simp add: issued_eq t promiseCalls_def async_def isTMDBCall_def)
  qed
  have b: "buildSections B cfg (Some matrixContext) JNull JNull JNull = Inr [Preamble, Closing]"
    by (simp add: buildSections_def webSection_def contextSection_def matrixContext_def
          noContext_def)
  have timeout: "ended ?run = Inr ([Preamble, Closing],
                   \<lparr>systemPrompt = lit_preamble @ lit_closing, webSearchResults = JNull,
                    doubanData = JNull, tmdbData = JNull\<rparr>)"
    if "\<forall>k. W (TMDBRequest Movie 603 k) = Failed TimedOut"
  proof -
    have "fanIn (startWebSearch W msgWhatIsItAbout cfg ?ri)
            (startDouban W (Some matrixContext) ?ri)
            (startTMDB W (Some matrixContext) cfg ?ri) = Inr (JNull, JNull, JNull)"
      using tmdb_timeout_null [OF that]
      by (simp add: fanIn_values d w t settledValue_def async_def)
    then show ?thesis
      by (simp add: orchestrateDataSources_def Let_def b renderSection_def)
  qed
  from whatAbout_intent [of B] nodouban tm timeout show ?thesis by blast
qed

text \<open>The witness: all keys configured, TMDB timing out.\<close>

theorem matrix_scenario_witness:
  "issued (orchestrateDataSources sampleBuiltins tmdbTimesOut msgWhatIsItAbout
             (Some matrixContext) (Some allKeysConfig)) =
     [TMDBRequest Movie 603 (ascii ''tmdb-key'')] \<and>
   ended (orchestrateDataSources sampleBuiltins tmdbTimesOut msgWhatIsItAbout
            (Some matrixContext) (Some allKeysConfig)) =
     Inr ([Preamble, Closing],
          \<lparr>systemPrompt = lit_preamble @ lit_closing, webSearchResults = JNull,
           doubanData = JNull, tmdbData = JNull\<rparr>)"
proof -
  have d: "\<not> truthy (snd (decide tmdbTimesOut msgWhatIsItAbout (Some matrixContext)
                             (Some allKeysConfig)))"
    by (simp add: decide_def scenario_defs)
  have o: "\<forall>k. tmdbTimesOut (TMDBRequest Movie 603 k) = Failed TimedOut"
    by (simp add: tmdbTimesOut_def)
  have i: "issued (orchestrateDataSources sampleBuiltins tmdbTimesOut msgWhatIsItAbout
             (Some matrixContext) (Some allKeysConfig)) =
           [TMDBRequest Movie 603 (ascii ''tmdb-key'')]"
    by (simp add: issued_eq promiseCalls_def start_defs scenario_defs intent_defs)
  from matrix_scenario [OF d, of sampleBuiltins] o i show ?thesis by simp
qed


text \<open>The claim as stated fails: the type is \<^verbatim>\<open>general\<close> and \<^verbatim>\<open>needDouban\<close> is false.\<close>

theorem matrix_is_general:
  "intent_type (analyzeIntent sampleBuiltins msgWhatIsItAbout (Some matrixContext)) = General \<and>
   \<not> needDouban (analyzeIntent sampleBuiltins msgWhatIsItAbout (Some matrixContext))"
  by (simp add: intent_defs scenario_defs)

subsection \<open>Graceful degradation\<close>

lemma call_value: "snd (call W r) = orNull (W r)"
  by (simp add: call_def)

lemma fetchDoubanSearch_value:
  "snd (fetchDoubanSearch W ps) = JNull \<or>
   (\<exists>r. isDoubanCall r \<and> snd (fetchDoubanSearch W ps) = orNull (W r))"
proof (cases "p_query ps")
  case None
  then show ?thesis by (simp add: fetchDoubanSearch_def)
next
  case (Some q)
  show ?thesis
  proof (cases "truthy q")
    case True
    have "isDoubanCall (DoubanSearchRequest (strOr (p_kind ps) (ascii ''movie'')) q)"
      by (simp add: isDoubanCall_def)
    then show ?thesis
      using Some True by (auto simp: fetchDoubanSearch_def call_value)
  next
    case False
    then show ?thesis using Some by (simp add: fetchDoubanSearch_def)
  qed
qed

lemma fetchDoubanHot_value:
  "snd (fetchDoubanHot W ps) = JNull \<or>
   (\<exists>r. isDoubanCall r \<and> snd (fetchDoubanHot W ps) = orNull (W r))"
proof (cases "\<exists>k c t. p_kind ps = Some k \<and> p_category ps = Some c \<and> p_type ps = Some t \<and>
                        k \<noteq> [] \<and> c \<noteq> [] \<and> t \<noteq> []")
  case True
  then obtain k c t where "p_kind ps = Some k" "p_category ps = Some c" "p_type ps = Some t"
    "k \<noteq> []" "c \<noteq> []" "t \<noteq> []" by blast
  then have "snd (fetchDoubanHot W ps) = JNull \<or>
             snd (fetchDoubanHot W ps) = orNull (W (DoubanHotRequest k c t))"
    by (simp add: fetchDoubanHot_def call_value)
  moreover have "isDoubanCall (DoubanHotRequest k c t)" by (simp add: isDoubanCall_def)
  ultimately show ?thesis by blast
next
  case False
  then have "fetchDoubanHot W ps = fetchDoubanSearch W ps"
    by (auto simp: fetchDoubanHot_def split: option.splits)
  then show ?thesis using fetchDoubanSearch_value [of W ps] by simp
qed

lemma fetchDoubanData_value:
  "snd (fetchDoubanData W ps) = JNull \<or>
   (\<exists>r. isDoubanCall r \<and> snd (fetchDoubanData W ps) = orNull (W r))"
proof (cases "\<exists>n. p_id ps = Some n \<and> n \<noteq> 0")
  case True
  then obtain n where "p_id ps = Some n" "n \<noteq> 0" by blast
  then have "snd (fetchDoubanData W ps) = orNull (W (DoubanDetailRequest n))"
    by (simp add: fetchDoubanData_def call_value)
  moreover have "isDoubanCall (DoubanDetailRequest n)" by (simp add: isDoubanCall_def)
  ultimately show ?thesis by blast
next
  case False
  then have "fetchDoubanData W ps = fetchDoubanHot W ps"
    by (auto simp: fetchDoubanData_def split: option.splits)
  then show ?thesis using fetchDoubanHot_value [of W ps] by simp
qed

lemma fetchTMDBData_value:
  "snd (fetchTMDBData W i k key p) = JNull \<or>
   (\<exists>r. isTMDBCall r \<and> snd (fetchTMDBData W i k key p) = orNull (W r))"
proof (cases "\<exists>ky n t. key = Some ky \<and> ky \<noteq> [] \<and> i = Some n \<and> k = Some t \<and> n \<noteq> 0")
  case True
  then obtain ky n t where "key = Some ky" "ky \<noteq> []" "i = Some n" "k = Some t" "n \<noteq> 0"
    by blast
  then have "snd (fetchTMDBData W i k key p) = orNull (W (TMDBRequest t n ky))"
    by (simp add: fetchTMDBData_def call_value)
  moreover have "isTMDBCall (TMDBRequest t n ky)" by (simp add: isTMDBCall_def)
  ultimately show ?thesis by blast
next
  case False
  then have "snd (fetchTMDBData W i k key p) = JNull"
    by (auto simp: fetchTMDBData_def split: option.splits)
  then show ?thesis by simp
qed

lemma settled_async: "settledValue (Some (async x)) = snd x"
  by (simp add: settledValue_def async_def)

lemma settled_None: "settledValue None = JNull"
  by (simp add: settledValue_def)

lemma douban_value:
  "settledValue (startDouban W ctx ri) = JNull \<or>
   (\<exists>r. isDoubanCall r \<and> settledValue (startDouban W ctx ri) = orNull (W r))"
  unfolding startDouban_def
  by (simp only: settled_async settled_None fetchDoubanData_value if_split simp_thms split: if_split)

lemma tmdb_value:
  "settledValue (startTMDB W ctx cfg ri) = JNull \<or>
   (\<exists>r. isTMDBCall r \<and> settledValue (startTMDB W ctx cfg ri) = orNull (W r))"
  unfolding startTMDB_def
  by (simp only: settled_async settled_None fetchTMDBData_value if_split simp_thms split: if_split)

lemma shaped_reply:
  assumes "wellShaped W" and "truthy (orNull (W r))"
  shows "(isDoubanCall r \<longrightarrow> catalogShaped (orNull (W r))) \<and>
         (isTMDBCall r \<longrightarrow> internationalShaped (orNull (W r)))"
  using assms by (cases "W r") (auto simp: wellShaped_def orNull_def)

lemma sliceOpt_array: "absentOrArray v \<Longrightarrow> \<exists>x. sliceOpt n v = Inr x"
  by (auto simp: absentOrArray_def sliceOpt_def split: option.splits json.splits)

lemma no_null_among_objects: "list_all isObject xs \<Longrightarrow> \<not> list_ex (\<lambda>item. item = JNull) (take n xs)"
  by (auto simp: list_all_iff list_ex_iff isObject_def dest!: in_set_takeD)

lemma catalog_section: "catalogShaped d \<Longrightarrow> \<exists>s. doubanSection d = Inr s"
  using sliceOpt_array [of "member d (ascii ''reviews'')" 2]
  by (auto simp: catalogShaped_def doubanSection_def no_null_among_objects
           split: if_splits option.splits json.splits)

lemma international_section: "internationalShaped t \<Longrightarrow> \<exists>s. tmdbSection t = Inr s"
  using sliceOpt_array [of "member t (ascii ''similar'')" 5]
  by (auto simp: internationalShaped_def tmdbSection_def)

lemma preamble_nonempty: "lit_preamble \<noteq> []"
  by (simp add: lit_preamble_def)

lemma buildSections_shaped:
  assumes "\<not> truthy d \<or> catalogShaped d" and "\<not> truthy t \<or> internationalShaped t"
  shows "\<exists>ds ts. buildSections B cfg ctx w d t =
            Inr ([Preamble] @ webSection B cfg w @ ds @ ts @ contextSection ctx @ [Closing]) \<and>
          (\<not> truthy d \<longrightarrow> ds = []) \<and> (\<not> truthy t \<longrightarrow> ts = [])"
proof -
  obtain ds where ds: "(if truthy d then map_sum id (\<lambda>sec. [sec]) (doubanSection d) else Inr []) = Inr ds"
    "\<not> truthy d \<longrightarrow> ds = []"
    using assms(1) catalog_section [of d] by (cases "truthy d") auto
  obtain ts where ts: "(if truthy t then map_sum id (\<lambda>sec. [sec]) (tmdbSection t) else Inr []) = Inr ts"
    "\<not> truthy t \<longrightarrow> ts = []"
    using assms(2) international_section [of t] by (cases "truthy t") auto
  have "buildSections B cfg ctx w d t =
          Inr ([Preamble] @ webSection B cfg w @ ds @ ts @ contextSection ctx @ [Closing])"
    unfolding buildSections_def ds(1) ts(1) by simp
  with ds(2) ts(2) show ?thesis by blast
qed

lemma webSection_falsy: "\<not> truthy w \<Longrightarrow> webSection B cfg w = []"
  by (simp add: webSection_def)

lemma allDown_shaped: "wellShaped allDown"
  by (simp add: wellShaped_def allDown_def)

lemma tmdbTimesOut_shaped: "wellShaped tmdbTimesOut"
  by (auto simp: wellShaped_def tmdbTimesOut_def isDoubanCall_def isTMDBCall_def
           catalogShaped_def absentOrArray_def ascii_def split: request.splits)

lemma returned_fields:
  assumes "ended (orchestrateDataSources B W msg ctx cfg) = Inr (secs, r)"
  shows "webSearchResults r =
           settledValue (startWebSearch W msg cfg
                           (resolveIntent B msg ctx (snd (decide W msg ctx cfg))))"
    and "doubanData r =
           settledValue (startDouban W ctx
                           (resolveIntent B msg ctx (snd (decide W msg ctx cfg))))"
    and "tmdbData r =
           settledValue (startTMDB W ctx cfg
                           (resolveIntent B msg ctx (snd (decide W msg ctx cfg))))"
  using assms
  by (auto simp add: orchestrateDataSources_def Let_def fanIn_values split: sum.splits)

text \<open>
  Where the orchestrator does degrade. When the catalog and international payloads that
  arrive have the shapes the prompt assembly reads (\<open>wellShaped\<close>), the orchestrator
  returns for every message, context and configuration, its prompt is not empty, and
  when no source produced data the prompt is the preamble, the current-video section
  when the context has a title, and the closing section.
\<close>

lemma returns_when_shaped:
  assumes "wellShaped W"
  shows "\<exists>secs r.
           ended (orchestrateDataSources B W msg ctx cfg) = Inr (secs, r) \<and>
           systemPrompt r \<noteq> [] \<and>
           (\<not> truthy (webSearchResults r) \<and> \<not> truthy (doubanData r) \<and> \<not> truthy (tmdbData r) \<longrightarrow>
              systemPrompt r =
                lit_preamble @ concat (map (renderSection B) (contextSection ctx)) @ lit_closing)"
proof -
  let ?ri = "resolveIntent B msg ctx (snd (decide W msg ctx cfg))"
  let ?w = "settledValue (startWebSearch W msg cfg ?ri)"
  let ?d = "settledValue (startDouban W ctx ?ri)"
  let ?t = "settledValue (startTMDB W ctx cfg ?ri)"
  have d: "\<not> truthy ?d \<or> catalogShaped ?d"
    using douban_value [of W ctx ?ri] shaped_reply [OF assms] by auto
  have t: "\<not> truthy ?t \<or> internationalShaped ?t"
    using tmdb_value [of W ctx cfg ?ri] shaped_reply [OF assms] by auto
  from buildSections_shaped [OF d t, of B cfg ctx ?w] obtain ds ts where
    b: "buildSections B cfg ctx ?w ?d ?t =
          Inr ([Preamble] @ webSection B cfg ?w @ ds @ ts @ contextSection ctx @ [Closing])"
    and e: "\<not> truthy ?d \<longrightarrow> ds = []" "\<not> truthy ?t \<longrightarrow> ts = []"
    by blast
  let ?secs = "[Preamble] @ webSection B cfg ?w @ ds @ ts @ contextSection ctx @ [Closing]"
  let ?r = "\<lparr>systemPrompt = concat (map (renderSection B) ?secs), webSearchResults = ?w,
             doubanData = ?d, tmdbData = ?t\<rparr>"
  have "ended (orchestrateDataSources B W msg ctx cfg) = Inr (?secs, ?r)"
    by (simp add: orchestrateDataSources_def Let_def fanIn_values b)
  moreover have "systemPrompt ?r \<noteq> []"
    by (simp add: renderSection_def preamble_nonempty)
  moreover have "\<not> truthy (webSearchResults ?r) \<and> \<not> truthy (doubanData ?r) \<and>
                 \<not> truthy (tmdbData ?r) \<longrightarrow>
                 systemPrompt ?r =
                   lit_preamble @ concat (map (renderSection B) (contextSection ctx)) @ lit_closing"
    using e by (auto simp: webSection_falsy renderSection_def)
  ultimately show ?thesis by blast
qed


text \<open>
  Two such runs: every provider down, where the prompt is the preamble, the context
  section and the closing section; and web search and Douban answering while TMDB times
  out, where the orchestrator returns a non-empty prompt.
\<close>

lemma returns_when_shaped_sample:
  "promptOf (orchestrateDataSources sampleBuiltins allDown msgWhenSeasonTwo
               (Some titledContext) (Some allKeysConfig)) =
     lit_preamble @ renderSection sampleBuiltins (ContextSection (ascii ''Dark'') None None) @
     lit_closing \<and>
   returned (orchestrateDataSources sampleBuiltins tmdbTimesOut msgWhenSeasonTwo
               (Some richContext) (Some allKeysConfig)) \<and>
   promptOf (orchestrateDataSources sampleBuiltins tmdbTimesOut msgWhenSeasonTwo
               (Some richContext) (Some allKeysConfig)) \<noteq> []"
proof -
  from returns_when_shaped [OF allDown_shaped, of sampleBuiltins msgWhenSeasonTwo
         "Some titledContext" "Some allKeysConfig"]
  obtain secs r where
    e: "ended (orchestrateDataSources sampleBuiltins allDown msgWhenSeasonTwo
                 (Some titledContext) (Some allKeysConfig)) = Inr (secs, r)"
    and p: "\<not> truthy (webSearchResults r) \<and> \<not> truthy (doubanData r) \<and> \<not> truthy (tmdbData r) \<longrightarrow>
              systemPrompt r =
                lit_preamble @
                concat (map (renderSection sampleBuiltins) (contextSection (Some titledContext))) @
                lit_closing"
    by blast
  have v: "webSearchResults r = JNull \<and> doubanData r = JNull \<and> tmdbData r = JNull"
    using returned_fields [OF e]
    by (simp add: settledValue_def scenario_defs intent_defs start_defs allDown_def)
  have c: "contextSection (Some titledContext) = [ContextSection (ascii ''Dark'') None None]"
    by (simp add: contextSection_def scenario_defs strTruthy_def numTruthy_def ascii_def)
  have 1: "promptOf (orchestrateDataSources sampleBuiltins allDown msgWhenSeasonTwo
               (Some titledContext) (Some allKeysConfig)) =
     lit_preamble @ renderSection sampleBuiltins (ContextSection (ascii ''Dark'') None None) @
     lit_closing"
    using p v by (simp add: promptOf_def e c)
  from returns_when_shaped [OF tmdbTimesOut_shaped, of sampleBuiltins msgWhenSeasonTwo
         "Some richContext" "Some allKeysConfig"]
  have 2: "returned (orchestrateDataSources sampleBuiltins tmdbTimesOut msgWhenSeasonTwo
               (Some richContext) (Some allKeysConfig)) \<and>
           promptOf (orchestrateDataSources sampleBuiltins tmdbTimesOut msgWhenSeasonTwo
               (Some richContext) (Some allKeysConfig)) \<noteq> []"
    by (auto simp: returned_def promptOf_def)
  from 1 2 show ?thesis by blast
qed

text \<open>
  With every provider down and a titled context, the prompt holds the current-video
  section besides the preamble and the closing section: \<^verbatim>\<open>context?.title\<close> alone
  decides on that section.
\<close>

lemma degraded_prompt_keeps_context:
  "promptOf (orchestrateDataSources sampleBuiltins allDown msgWhenSeasonTwo
               (Some titledContext) (Some noKeysConfig)) =
     lit_preamble @ renderSection sampleBuiltins (ContextSection (ascii ''Dark'') None None) @
     lit_closing \<and>
   promptOf (orchestrateDataSources sampleBuiltins allDown msgWhenSeasonTwo
               (Some titledContext) (Some noKeysConfig)) \<noteq> lit_preamble @ lit_closing"
proof -
  have 2: "promptOf (orchestrateDataSources sampleBuiltins allDown msgWhenSeasonTwo
               (Some titledContext) (Some noKeysConfig)) =
     lit_preamble @ renderSection sampleBuiltins (ContextSection (ascii ''Dark'') None None) @
     lit_closing"
    by (simp add: promptOf_def orchestrateDataSources_def fanIn_values settledValue_def
          scenario_defs intent_defs start_defs prompt_defs allDown_def renderSection_def)
  have 3: "renderSection sampleBuiltins (ContextSection (ascii ''Dark'') None None) \<noteq> []"
    by (simp add: renderSection_def)
  from 2 3 show ?thesis by simp
qed

text \<open>
  \<^bold>\<open>Claim C1, at the input where the code departs from it.\<close> The question what the
  film is about, with the context \<^verbatim>\<open>{tmdb_id: 603, type: "movie"}\<close> and a TMDB key
  configured; TMDB answers, and its body has \<^verbatim>\<open>similar\<close> as the page object
  \<^verbatim>\<open>{page, results}\<close> that \<^verbatim>\<open>append_to_response=similar\<close> asks for. The one request
  of the run is the TMDB request, it succeeds, and the orchestrator does not return:
  \<^verbatim>\<open>tmdbData.similar?.slice(0, 5)\<close> throws a \<^verbatim>\<open>TypeError\<close> outside any \<^verbatim>\<open>try\<close>, and
  the endpoint answers 500 instead of a chat reply.
\<close>

theorem similar_page_throws:
  "issued (orchestrateDataSources sampleBuiltins tmdbAnswers msgWhatIsItAbout
             (Some matrixContext) (Some allKeysConfig)) =
     [TMDBRequest Movie 603 (ascii ''tmdb-key'')] \<and>
   truthy (orNull (tmdbAnswers (TMDBRequest Movie 603 (ascii ''tmdb-key'')))) \<and>
   ended (orchestrateDataSources sampleBuiltins tmdbAnswers msgWhatIsItAbout
            (Some matrixContext) (Some allKeysConfig)) = Inl TypeError \<and>
   \<not> returned (orchestrateDataSources sampleBuiltins tmdbAnswers msgWhatIsItAbout
                  (Some matrixContext) (Some allKeysConfig)) \<and>
   snd (POST sampleBuiltins tmdbAnswers matrixServer) = JsonError 500 ChatFailed"
proof -
  let ?run = "orchestrateDataSources sampleBuiltins tmdbAnswers msgWhatIsItAbout
                (Some matrixContext) (Some allKeysConfig)"
  let ?admin = "\<lparr>AIConfigOf = Some sampleAIConfig, TMDBApiKey = Some (ascii ''tmdb-key''),
                 TMDBProxy = None\<rparr>"
  let ?srv = "orchestrateDataSources sampleBuiltins tmdbAnswers msgWhatIsItAbout
                (Some matrixContext) (Some (orchestratorConfig ?admin sampleAIConfig))"
  have i: "issued ?run = [TMDBRequest Movie 603 (ascii ''tmdb-key'')]"
    by (simp add: issued_eq promiseCalls_def start_defs scenario_defs intent_defs)
  have t: "truthy (orNull (tmdbAnswers (TMDBRequest Movie 603 (ascii ''tmdb-key''))))"
    by (simp add: tmdbAnswers_def orNull_def)
  have e: "ended ?run = Inl TypeError"
    by (simp add: orchestrateDataSources_def fanIn_values settledValue_def
          scenario_defs intent_defs start_defs prompt_defs tmdbAnswers_def)
  have r: "\<not> returned ?run"
    by (simp add: returned_def e)
  have s: "ended ?srv = Inl TypeError"
    by (simp add: orchestrateDataSources_def fanIn_values settledValue_def
          orchestratorConfig_def sampleAIConfig_def
          scenario_defs intent_defs start_defs prompt_defs tmdbAnswers_def)
  have a: "snd (answer sampleBuiltins tmdbAnswers S ?admin sampleAIConfig
             \<lparr>message = Some (JStr msgWhatIsItAbout), request_context = Some matrixContext,
              history = []\<rparr> msgWhatIsItAbout) = JsonError 500 ChatFailed" for S
    using s unfolding answer_def by (simp add: Let_def)
  have n: "msgWhatIsItAbout \<noteq> []" by (simp add: msgWhatIsItAbout_def)
  have g: "Enabled sampleAIConfig" "AllowRegularUsers sampleAIConfig"
    by (simp_all add: sampleAIConfig_def)
  have u: "ascii ''alice'' \<noteq> []" by (simp add: ascii_def)
  have p: "snd (POST sampleBuiltins tmdbAnswers matrixServer) = JsonError 500 ChatFailed"
    unfolding POST_def
    by (simp add: matrixServer_def sampleServer_def permissionCheck_def n a g u)
  from i t e r p show ?thesis by simp
qed

subsection \<open>The gates of the endpoint\<close>

text \<open>
  The four checks that stand before the orchestrator (not logged in, AI disabled, role
  refused, message missing or empty) answer with an error and issue no request. A
  missing custom key or base URL also ends in an error response, in every case.
\<close>

lemma permissionCheck_error:
  "permissionCheck S ai u = Some resp \<Longrightarrow> isErrorResponse resp"
  by (auto simp: permissionCheck_def isErrorResponse_def split: if_splits option.splits)

lemma answer_custom_missing:
  assumes "\<not> (strTruthy (CustomApiKey ai) \<and> strTruthy (CustomBaseURL ai))"
  shows "isErrorResponse (snd (answer B W S adminConfig ai body msg))"
  using assms
  by (auto simp: answer_def Let_def isErrorResponse_def strTruthy_def
           split: sum.splits option.splits prod.splits)

lemma early_gates_issue_no_call:
  assumes "unauthenticated S \<or> aiDisabled S \<or> roleRefused S \<or> messageInvalid S"
  shows "fst (POST B W S) = [] \<and> isErrorResponse (snd (POST B W S))"
  using assms permissionCheck_error [of S]
  by (auto simp: POST_def unauthenticated_def aiDisabled_def roleRefused_def messageInvalid_def
           isErrorResponse_def split: option.splits json.splits if_splits)

lemma custom_gate_is_error:
  assumes "getConfig S = Some adminConfig" and "AIConfigOf adminConfig = Some ai"
    and "\<not> (strTruthy (CustomApiKey ai) \<and> strTruthy (CustomBaseURL ai))"
  shows "isErrorResponse (snd (POST B W S))"
  using assms(1,2) answer_custom_missing [OF assms(3), of B W S adminConfig]
        permissionCheck_error [of S ai]
  by (auto simp: POST_def isErrorResponse_def split: option.splits json.splits if_splits)

text \<open>
  \<^bold>\<open>Claim C3, at the input where the code departs from it.\<close> The check of the custom
  LLM key and base URL stands after the call of the orchestrator. For a request that
  passes the four earlier checks, with web search and TMDB configured and no custom
  key, the endpoint answers 400 for the incomplete custom API after the web search, Douban
  and TMDB requests have been issued.
\<close>

theorem calls_before_custom_gate:
  "POST sampleBuiltins tmdbTimesOut sampleServer =
     ([WebSearchRequest Tavily (JStr msgWhenSeasonTwo) (ascii ''tvly-key''),
       DoubanSearchRequest (ascii ''movie'') (JStr (ascii ''Dark'')),
       TMDBRequest Movie 603 (ascii ''tmdb-key'')],
      JsonError 400 CustomApiIncomplete)"
proof -
  let ?admin = "\<lparr>AIConfigOf = Some sampleAIConfig, TMDBApiKey = Some (ascii ''tmdb-key''),
                 TMDBProxy = None\<rparr>"
  let ?run = "orchestrateDataSources sampleBuiltins tmdbTimesOut msgWhenSeasonTwo
                (Some richContext) (Some (orchestratorConfig ?admin sampleAIConfig))"
  have i: "issued ?run =
           [WebSearchRequest Tavily (JStr msgWhenSeasonTwo) (ascii ''tvly-key''),
            DoubanSearchRequest (ascii ''movie'') (JStr (ascii ''Dark'')),
            TMDBRequest Movie 603 (ascii ''tmdb-key'')]"
    by (simp add: orchestrateDataSources_def promiseCalls_def orchestratorConfig_def
          sampleAIConfig_def scenario_defs intent_defs start_defs)
  have e: "\<exists>x. ended ?run = Inr x"
    by (simp add: orchestrateDataSources_def fanIn_values settledValue_def
          orchestratorConfig_def sampleAIConfig_def
          scenario_defs intent_defs start_defs prompt_defs tmdbTimesOut_def)
  have n: "msgWhenSeasonTwo \<noteq> []" by (simp add: msgWhenSeasonTwo_def)
  have k: "CustomApiKey sampleAIConfig = None" by (simp add: sampleAIConfig_def)
  have a: "answer sampleBuiltins tmdbTimesOut S ?admin sampleAIConfig
             \<lparr>message = Some (JStr msgWhenSeasonTwo), request_context = Some richContext,
              history = []\<rparr> msgWhenSeasonTwo =
           (issued ?run, JsonError 400 CustomApiIncomplete)" for S
    using e unfolding answer_def by (auto simp: Let_def k)
  have g: "Enabled sampleAIConfig" "AllowRegularUsers sampleAIConfig"
    by (simp_all add: sampleAIConfig_def)
  have u: "ascii ''alice'' \<noteq> []" by (simp add: ascii_def)
  show ?thesis
    unfolding POST_def
    by (simp add: sampleServer_def permissionCheck_def n a i g u)
qed

end
